theory Spec2Isabelle
  imports Complex_Main
begin

section \<open>Data model of the planner (planner.js)\<close>

text \<open>
  The typedefs at the head of planner.js give the data model.  Strings are lists of
  characters; numbers produced by \<^verbatim>\<open>Number(...)\<close> are IEEE doubles, modelled by their
  value: a real, an infinity or NaN.  Comparisons involving NaN are false, as in
  JavaScript.
\<close>

datatype PlannerState = Idle | Validating | Submitting | Success | Error

datatype PlannerErrorKind = VALIDATION | NETWORK | TIMEOUT | SERVER | UNKNOWN

datatype js_number = NaN | PosInf | NegInf | Fin real

fun isFinite :: "js_number \<Rightarrow> bool" where
  "isFinite (Fin x) = True"
| "isFinite _ = False"

fun js_less :: "js_number \<Rightarrow> js_number \<Rightarrow> bool" where
  "js_less NaN _ = False"
| "js_less _ NaN = False"
| "js_less (Fin x) (Fin y) = (x < y)"
| "js_less NegInf NegInf = False"
| "js_less NegInf _ = True"
| "js_less _ NegInf = False"
| "js_less PosInf _ = False"
| "js_less _ PosInf = True"

fun js_le :: "js_number \<Rightarrow> js_number \<Rightarrow> bool" where
  "js_le NaN _ = False"
| "js_le _ NaN = False"
| "js_le a b = (a = b \<or> js_less a b)"

definition js_greater :: "js_number \<Rightarrow> js_number \<Rightarrow> bool" where
  "js_greater a b = js_less b a"

record PlannerPayload =
  age_months :: js_number
  concern :: string
  email :: "string option"

record PlannerStepData =
  steps :: "string list option"

datatype bundle_key = IdString string | IdNumber int

record PlannerBundle =
  bundle_id :: bundle_key
  bundle_name :: string
  bundle_description :: "string option"
  bundle_price :: "string option"
  bundle_href :: "string option"

text \<open>
  The entries of \<^verbatim>\<open>DEFAULTS.TEXT\<close> that are written to the status element.  Only
  \<^verbatim>\<open>STATUS_IDLE\<close> is the empty string.
\<close>

datatype status_text =
    STATUS_IDLE | STATUS_LOADING | STATUS_SUCCESS | STATUS_VALIDATION_ERROR
  | STATUS_GENERIC_ERROR | STATUS_NETWORK_ERROR | STATUS_TIMEOUT_ERROR
  | STATUS_PARTIAL_BUNDLES_ERROR

datatype status_class = STATUS_OK | STATUS_ERROR | STATUS_NEUTRAL

record PlannerValidationResult =
  ok :: bool
  formError :: "status_text option"
  fieldErrors :: "(string \<times> string) list"

text \<open>
  A JavaScript error object, as far as the code inspects it: whether it is an instance of
  \<^verbatim>\<open>TypeError\<close>, its \<^verbatim>\<open>name\<close> and \<^verbatim>\<open>message\<close>, a \<^verbatim>\<open>code\<close> when one was attached, and a
  \<^verbatim>\<open>status\<close> when a number was attached.  A thrown value is such an object or a falsy
  value.
\<close>

record js_error =
  isTypeError :: bool
  err_name :: string
  err_message :: string
  err_code :: "string option"
  err_status :: "nat option"

datatype js_value = Falsy | ErrorObj js_error

record PlannerResolvedError =
  kind :: PlannerErrorKind
  message :: status_text
  raw :: "js_value option"

definition MIN_AGE_MONTHS :: js_number where "MIN_AGE_MONTHS = Fin 1"
definition MAX_AGE_MONTHS :: js_number where "MAX_AGE_MONTHS = Fin 600"
definition MIN_CONCERN_LEN :: nat where "MIN_CONCERN_LEN = 3"
definition MAX_CONCERN_LEN :: nat where "MAX_CONCERN_LEN = 500"
definition TIMEOUT_MS :: nat where "TIMEOUT_MS = 15000"

section \<open>Strings\<close>

text \<open>
  \<^verbatim>\<open>String.prototype.trim\<close> and the class \<^verbatim>\<open>\s\<close> use the same set of white space and
  line terminators; these are its members below U+0100.
\<close>

definition is_ws :: "char \<Rightarrow> bool" where
  "is_ws c = (of_char c \<in> {9, 10, 11, 12, 13, 32, 160 :: nat})"

definition trim :: "string \<Rightarrow> string" where
  "trim s = rev (dropWhile is_ws (rev (dropWhile is_ws s)))"

text \<open>\<^verbatim>\<open>getTrimmedValue(input)\<close> is \<^verbatim>\<open>(input?.value ?? '').trim()\<close>.\<close>

record input_el =
  in_value :: string
  in_error :: "string option"

definition getTrimmedValue :: "input_el option \<Rightarrow> string" where
  "getTrimmedValue input = trim (case input of None \<Rightarrow> [] | Some el \<Rightarrow> in_value el)"

text \<open>
  \<^verbatim>\<open>/^[^\s@]+@[^\s@]+\.[^\s@]+$/\<close>: a non-empty run free of white space and \<^verbatim>\<open>@\<close>, then
  \<^verbatim>\<open>@\<close>, then a run of the same class that has a dot with at least one character on
  each side.
\<close>

definition plain_char :: "char \<Rightarrow> bool" where
  "plain_char c = (\<not> is_ws c \<and> c \<noteq> CHR ''@'')"

definition basicEmailRegex_test :: "string \<Rightarrow> bool" where
  "basicEmailRegex_test s =
     (takeWhile plain_char s \<noteq> [] \<and>
      (case dropWhile plain_char s of
         [] \<Rightarrow> False
       | c # rest \<Rightarrow> c = CHR ''@'' \<and> list_all plain_char rest \<and>
                   CHR ''.'' \<in> set (butlast (tl rest))))"

text \<open>Assigning a property of an object literal: in place when present, appended otherwise.\<close>

fun set_prop :: "string \<Rightarrow> 'v \<Rightarrow> (string \<times> 'v) list \<Rightarrow> (string \<times> 'v) list" where
  "set_prop k v [] = [(k, v)]"
| "set_prop k v (p # ps) = (if fst p = k then (k, v) # ps else p # set_prop k v ps)"

section \<open>Validation\<close>

text \<open>\<^verbatim>\<open>Number\<close> on strings is the host's; it is a parameter of the model.\<close>

definition validateFields ::
  "(string \<Rightarrow> js_number) \<Rightarrow> string \<Rightarrow> string \<Rightarrow> string \<Rightarrow> PlannerValidationResult" where
  "validateFields Number ageRaw concernRaw emailRaw =
    (let ageValue = trim ageRaw;
         ageNumber = Number ageValue;
         fe0 = [];
         fe1 = (if ageValue = [] then set_prop ''age'' ''Age is required.'' fe0
                else if \<not> isFinite ageNumber \<or> js_le ageNumber (Fin 0)
                  then set_prop ''age'' ''Age must be a positive number.'' fe0
                else if js_less ageNumber MIN_AGE_MONTHS \<or> js_greater ageNumber MAX_AGE_MONTHS
                  then set_prop ''age'' ''Age must be between 1 and 600 months.'' fe0
                else fe0);
         concern = trim concernRaw;
         fe2 = (if concern = [] then set_prop ''concern'' ''Please describe your main concern.'' fe1
                else if length concern < MIN_CONCERN_LEN
                  then set_prop ''concern'' ''Concern must be at least 3 characters.'' fe1
                else if length concern > MAX_CONCERN_LEN
                  then set_prop ''concern'' ''Concern must be at most 500 characters.'' fe1
                else fe1);
         email = trim emailRaw;
         fe3 = (if email \<noteq> [] then
                  (if \<not> basicEmailRegex_test email
                   then set_prop ''email'' ''Please enter a valid email address.'' fe2
                   else fe2)
                else fe2);
         ok = (length (map fst fe3) = 0)
     in \<lparr> ok = ok,
          formError = (if ok then None else Some STATUS_VALIDATION_ERROR),
          fieldErrors = fe3 \<rparr>)"

section \<open>The network call wrapper\<close>

record request =
  req_url :: string
  req_method :: string
  req_headers :: "(string \<times> string) list"
  req_body :: "PlannerPayload option"
  req_timeoutMs :: nat

text \<open>
  What \<^verbatim>\<open>fetch\<close> does with a request: its promise rejects with a value (a
  \<^verbatim>\<open>TypeError\<close> when the network is unreachable, an error named \<^verbatim>\<open>AbortError\<close> when the
  timer of \<^verbatim>\<open>jsonFetch\<close> aborts it), or a response arrives with a status and a body.
\<close>

datatype fetch_outcome = Rejects js_value | Responds nat string

text \<open>
  The host: \<^verbatim>\<open>Number\<close>, \<^verbatim>\<open>fetch\<close>, and \<^verbatim>\<open>JSON.parse\<close> at the two result types of the
  typedefs (\<open>None\<close> is a syntax error, \<open>Some None\<close> is \<^verbatim>\<open>null\<close>); \<open>parse_message\<close> reads
  the body of an error response as JSON and yields its \<^verbatim>\<open>message\<close> when that is a string.
\<close>

record host =
  js_Number :: "string \<Rightarrow> js_number"
  fetch :: "request \<Rightarrow> fetch_outcome"
  parse_plan :: "string \<Rightarrow> PlannerStepData option option"
  parse_bundles :: "string \<Rightarrow> PlannerBundle list option option"
  parse_message :: "string \<Rightarrow> string option"

text \<open>
  The decimal digits of an integer, as string concatenation and template literals print
  one below \<open>10\<^sup>2\<^sup>1\<close>; it is used on status codes and list positions.
\<close>

fun show_nat :: "nat \<Rightarrow> string" where
  "show_nat n =
     (if n < 10 then [char_of (48 + n)] else show_nat (n div 10) @ [char_of (48 + n mod 10)])"

declare show_nat.simps [simp del]

definition new_Error :: "string \<Rightarrow> js_error" where
  "new_Error msg =
     \<lparr> isTypeError = False, err_name = ''Error'', err_message = msg,
       err_code = None, err_status = None \<rparr>"

definition res_ok :: "nat \<Rightarrow> bool" where
  "res_ok st = (200 \<le> st \<and> st \<le> 299)"

text \<open>The outer \<^verbatim>\<open>catch\<close> of \<^verbatim>\<open>jsonFetch\<close>: an abort becomes the timeout error.\<close>

definition jsonFetch_catch :: "js_value \<Rightarrow> js_value" where
  "jsonFetch_catch err =
     (case err of
        Falsy \<Rightarrow> Falsy
      | ErrorObj e \<Rightarrow>
          if err_name e = ''AbortError''
          then ErrorObj ((new_Error ''timeout'') \<lparr> err_code := Some ''TIMEOUT'' \<rparr>)
          else err)"

definition jsonFetch ::
  "host \<Rightarrow> (string \<Rightarrow> 'a option option) \<Rightarrow> request \<Rightarrow> js_value + 'a option" where
  "jsonFetch h parse req =
     (case fetch h req of
        Rejects err \<Rightarrow> Inl (jsonFetch_catch err)
      | Responds st body \<Rightarrow>
          if \<not> res_ok st then
            (let detail = (case parse_message h body of
                             Some m \<Rightarrow> '': '' @ m
                           | None \<Rightarrow> []);
                 error = (new_Error (''HTTP '' @ show_nat st @ detail)) \<lparr> err_status := Some st \<rparr>
             in Inl (jsonFetch_catch (ErrorObj error)))
          else if body = [] then Inr None
          else (case parse body of
                  Some v \<Rightarrow> Inr v
                | None \<Rightarrow> Inl (jsonFetch_catch (ErrorObj (new_Error ''Invalid JSON response'')))))"

section \<open>PlannerApp\<close>

text \<open>
  What the sink receives as \<^verbatim>\<open>detail\<close>, one variant per shape the controller passes.
\<close>

datatype detail =
    StateDetail PlannerState
  | FieldErrorsDetail "(string \<times> string) list"
  | PayloadDetail PlannerPayload
  | PlanDetail "PlannerStepData option"
  | BundlesDetail "PlannerBundle list option"
  | PlanBundlesDetail "PlannerStepData option" "PlannerBundle list option"
  | ResolvedDetail PlannerResolvedError
  | RawErrorDetail js_value

datatype plan_view = NoPlanView | PlanView "string list"

datatype bundles_view = NoBundlesView | NoBundlesMessage | BundleCards "PlannerBundle list"

datatype focus_target = FocusAge | FocusConcern | FocusEmail | FocusPlanHeading

text \<open>
  A sink is a JavaScript callback.  It acts on the rest of the page, of type \<open>'w\<close>, and
  either returns (\<open>None\<close>) or throws a value (\<open>Some\<close>).
\<close>

type_synonym 'w sink = "string \<Rightarrow> detail \<Rightarrow> 'w \<Rightarrow> js_value option \<times> 'w"

text \<open>
  The controller.  The DOM elements it owns are kept as what the code writes to them.
\<close>

record 'w PlannerApp =
  ageInput :: "input_el option"
  concernInput :: "input_el option"
  emailInput :: "input_el option"
  state :: PlannerState
  onEvent :: "'w sink"
  planEndpoint :: string
  bundlesEndpoint :: "string \<Rightarrow> string"
  timeoutMs :: nat
  statusText :: status_text
  statusClass :: status_class
  spinnerHidden :: bool
  formBusy :: bool
  submitDisabled :: bool
  planSection :: plan_view
  bundlesSection :: bundles_view
  focused :: "focus_target option"

text \<open>
  The state threaded through a handler: the controller, the page the sink acts on, and
  the requests handed to \<^verbatim>\<open>fetch\<close> so far.
\<close>

record 'w sys =
  app :: "'w PlannerApp"
  world :: "'w"
  calls :: "request list"

subsection \<open>Statements that may throw\<close>

text \<open>
  A statement yields the value it threw, if any, and the state it reached.  Sequencing
  stops at a throw; \<^verbatim>\<open>try\<close>/\<^verbatim>\<open>catch\<close> hands whatever the body threw to the handler;
  \<^verbatim>\<open>try\<close>/\<^verbatim>\<open>finally\<close> runs the final block either way and rethrows what the body threw
  unless the final block throws itself.
\<close>

type_synonym 'w stmt = "'w sys \<Rightarrow> js_value option \<times> 'w sys"

definition returning :: "('w sys \<Rightarrow> 'w sys) \<Rightarrow> 'w stmt" where
  "returning f s = (None, f s)"

definition and_then :: "'w stmt \<Rightarrow> 'w stmt \<Rightarrow> 'w stmt" where
  "and_then f g s = (case f s of (None, s1) \<Rightarrow> g s1 | (Some e, s1) \<Rightarrow> (Some e, s1))"

definition try_catch :: "'w stmt \<Rightarrow> (js_value \<Rightarrow> 'w stmt) \<Rightarrow> 'w stmt" where
  "try_catch body handler s =
     (case body s of (None, s1) \<Rightarrow> (None, s1) | (Some e, s1) \<Rightarrow> handler e s1)"

definition try_finally :: "'w stmt \<Rightarrow> 'w stmt \<Rightarrow> 'w stmt" where
  "try_finally body final s =
     (case body s of
        (None, s1) \<Rightarrow> final s1
      | (Some e, s1) \<Rightarrow>
          (case final s1 of (None, s2) \<Rightarrow> (Some e, s2) | (Some e', s2) \<Rightarrow> (Some e', s2)))"

subsection \<open>UI and state helpers\<close>

definition emit :: "string \<Rightarrow> detail \<Rightarrow> 'w stmt" where
  "emit stage d s =
     (case onEvent (app s) stage d (world s) of (thrown, w) \<Rightarrow> (thrown, s \<lparr> world := w \<rparr>))"

text \<open>\<^verbatim>\<open>setState\<close> assigns the state, then calls the sink.\<close>

definition setState :: "PlannerState \<Rightarrow> 'w stmt" where
  "setState newState s =
     emit ''state_change'' (StateDetail newState) (s \<lparr> app := (app s) \<lparr> state := newState \<rparr> \<rparr>)"

definition showSpinner :: "'w sys \<Rightarrow> 'w sys" where
  "showSpinner s = s \<lparr> app := (app s) \<lparr> spinnerHidden := False, formBusy := True \<rparr> \<rparr>"

definition hideSpinner :: "'w sys \<Rightarrow> 'w sys" where
  "hideSpinner s = s \<lparr> app := (app s) \<lparr> spinnerHidden := True, formBusy := False \<rparr> \<rparr>"

definition setStatus :: "status_text \<Rightarrow> bool \<Rightarrow> 'w sys \<Rightarrow> 'w sys" where
  "setStatus msg isError s =
     s \<lparr> app := (app s) \<lparr> statusText := msg,
          statusClass := (if isError then STATUS_ERROR
                          else if msg \<noteq> STATUS_IDLE then STATUS_OK else STATUS_NEUTRAL) \<rparr> \<rparr>"

definition clearStatus :: "'w sys \<Rightarrow> 'w sys" where
  "clearStatus s = setStatus STATUS_IDLE False s"

definition disableForm :: "'w sys \<Rightarrow> 'w sys" where
  "disableForm s = s \<lparr> app := (app s) \<lparr> submitDisabled := True \<rparr> \<rparr>"

definition enableForm :: "'w sys \<Rightarrow> 'w sys" where
  "enableForm s = s \<lparr> app := (app s) \<lparr> submitDisabled := False \<rparr> \<rparr>"

text \<open>\<^verbatim>\<open>setFieldError\<close>: the old message goes; a non-empty new one is shown.\<close>

definition setFieldError :: "string option \<Rightarrow> input_el \<Rightarrow> input_el" where
  "setFieldError msg field =
     field \<lparr> in_error := (case msg of None \<Rightarrow> None
                                      | Some m \<Rightarrow> if m = [] then None else Some m) \<rparr>"

definition clearFieldErrors :: "'w sys \<Rightarrow> 'w sys" where
  "clearFieldErrors s =
     s \<lparr> app := (app s)
          \<lparr> ageInput := map_option (setFieldError None) (ageInput (app s)),
            concernInput := map_option (setFieldError None) (concernInput (app s)),
            emailInput := map_option (setFieldError None) (emailInput (app s)) \<rparr> \<rparr>"

text \<open>\<^verbatim>\<open>result.fieldErrors.age\<close> as a condition: present and not the empty string.\<close>

definition truthy_prop :: "string \<Rightarrow> (string \<times> string) list \<Rightarrow> bool" where
  "truthy_prop k obj = (case map_of obj k of None \<Rightarrow> False | Some m \<Rightarrow> m \<noteq> [])"

subsection \<open>Validation in the form\<close>

text \<open>
  \<^verbatim>\<open>validateAndShowErrors(focusFirstInvalid)\<close>: everything up to the call of the sink is
  \<open>showErrors\<close>, which cannot throw; the result is the flag \<^verbatim>\<open>result.ok\<close> with the new
  state.  \<^verbatim>\<open>focus()\<close> is kept as the element that has the focus afterwards.
\<close>

definition showErrors :: "host \<Rightarrow> bool \<Rightarrow> 'w sys \<Rightarrow> 'w sys" where
  "showErrors h focusFirstInvalid s =
    (let result = validateFields (js_Number h)
                    (getTrimmedValue (ageInput (app s)))
                    (getTrimmedValue (concernInput (app s)))
                    (getTrimmedValue (emailInput (app s)));
         s1 = clearFieldErrors s
     in if \<not> ok result then
          (let s2 = setStatus (case formError result of
                                 None \<Rightarrow> STATUS_VALIDATION_ERROR
                               | Some t \<Rightarrow> if t = STATUS_IDLE then STATUS_VALIDATION_ERROR else t)
                              True s1;
               fe = fieldErrors result;
               ageBad = (ageInput (app s2) \<noteq> None \<and> truthy_prop ''age'' fe);
               s3 = (if ageBad
                     then s2 \<lparr> app := (app s2) \<lparr> ageInput :=
                            map_option (setFieldError (map_of fe ''age'')) (ageInput (app s2)) \<rparr> \<rparr>
                     else s2);
               first1 = (if ageBad then Some FocusAge else None);
               concernBad = (concernInput (app s3) \<noteq> None \<and> truthy_prop ''concern'' fe);
               s4 = (if concernBad
                     then s3 \<lparr> app := (app s3) \<lparr> concernInput :=
                            map_option (setFieldError (map_of fe ''concern'')) (concernInput (app s3)) \<rparr> \<rparr>
                     else s3);
               first2 = (if concernBad then (case first1 of None \<Rightarrow> Some FocusConcern | Some f \<Rightarrow> Some f)
                         else first1);
               emailBad = (emailInput (app s4) \<noteq> None \<and> truthy_prop ''email'' fe);
               s5 = (if emailBad
                     then s4 \<lparr> app := (app s4) \<lparr> emailInput :=
                            map_option (setFieldError (map_of fe ''email'')) (emailInput (app s4)) \<rparr> \<rparr>
                     else s4);
               first3 = (if emailBad then (case first2 of None \<Rightarrow> Some FocusEmail | Some f \<Rightarrow> Some f)
                         else first2)
           in if focusFirstInvalid \<and> first3 \<noteq> None
              then s5 \<lparr> app := (app s5) \<lparr> focused := first3 \<rparr> \<rparr>
              else s5)
        else clearStatus s1)"

definition validateAndShowErrors ::
  "host \<Rightarrow> bool \<Rightarrow> 'w sys \<Rightarrow> js_value option \<times> bool \<times> 'w sys" where
  "validateAndShowErrors h focusFirstInvalid s =
    (let result = validateFields (js_Number h)
                    (getTrimmedValue (ageInput (app s)))
                    (getTrimmedValue (concernInput (app s)))
                    (getTrimmedValue (emailInput (app s)));
         s1 = showErrors h focusFirstInvalid s
     in if \<not> ok result then
          (case emit ''validation_failed'' (FieldErrorsDetail (fieldErrors result)) s1 of
             (thrown, s2) \<Rightarrow> (thrown, False, s2))
        else (None, True, s1))"

text \<open>\<^verbatim>\<open>getPayload()\<close>: \<^verbatim>\<open>Number(getTrimmedValue(this.ageInput) || '0')\<close> and the two strings.\<close>

definition getPayload :: "host \<Rightarrow> 'w PlannerApp \<Rightarrow> PlannerPayload" where
  "getPayload h a =
    (let ageText = getTrimmedValue (ageInput a);
         ageMonths = js_Number h (if ageText = [] then ''0'' else ageText);
         concern = getTrimmedValue (concernInput a);
         email = getTrimmedValue (emailInput a);
         payload = \<lparr> age_months = ageMonths, concern = concern, email = None \<rparr>
     in if email \<noteq> [] then payload \<lparr> email := Some email \<rparr> else payload)"

subsection \<open>Rendering\<close>

text \<open>
  \<^verbatim>\<open>renderPlan\<close> shows the steps when \<^verbatim>\<open>planData?.steps\<close> is an array and moves the focus
  to the heading; \<^verbatim>\<open>renderBundles\<close> shows the cards, or the message when there is no
  array or an empty one.  On data of the typedefs neither throws.
\<close>

definition plan_steps :: "PlannerStepData option \<Rightarrow> string list" where
  "plan_steps planData =
     (case planData of
        None \<Rightarrow> []
      | Some p \<Rightarrow> (case steps p of None \<Rightarrow> [] | Some xs \<Rightarrow> xs))"

definition renderPlan :: "PlannerStepData option \<Rightarrow> 'w sys \<Rightarrow> 'w sys" where
  "renderPlan planData s =
     s \<lparr> app := (app s) \<lparr> planSection := PlanView (plan_steps planData),
                            focused := Some FocusPlanHeading \<rparr> \<rparr>"

definition renderBundles :: "PlannerBundle list option \<Rightarrow> 'w sys \<Rightarrow> 'w sys" where
  "renderBundles bundles s =
    (let arr = (case bundles of None \<Rightarrow> [] | Some bs \<Rightarrow> bs)
     in s \<lparr> app := (app s) \<lparr> bundlesSection :=
              (if length arr = 0 then NoBundlesMessage else BundleCards arr) \<rparr> \<rparr>)"

subsection \<open>Error resolution\<close>

definition resolveError :: "js_value \<Rightarrow> PlannerResolvedError" where
  "resolveError err =
    (case err of
       Falsy \<Rightarrow> \<lparr> kind = UNKNOWN, message = STATUS_GENERIC_ERROR, raw = None \<rparr>
     | ErrorObj anyErr \<Rightarrow>
         if err_code anyErr = Some ''TIMEOUT'' \<or> err_message anyErr = ''timeout''
         then \<lparr> kind = TIMEOUT, message = STATUS_TIMEOUT_ERROR, raw = Some err \<rparr>
         else if isTypeError anyErr
         then \<lparr> kind = NETWORK, message = STATUS_NETWORK_ERROR, raw = Some err \<rparr>
         else if err_status anyErr \<noteq> None
         then \<lparr> kind = SERVER, message = STATUS_GENERIC_ERROR, raw = Some err \<rparr>
         else \<lparr> kind = UNKNOWN, message = STATUS_GENERIC_ERROR, raw = Some err \<rparr>)"

subsection \<open>The submit handler\<close>

definition planRequest :: "'w PlannerApp \<Rightarrow> PlannerPayload \<Rightarrow> request" where
  "planRequest a payload =
     \<lparr> req_url = planEndpoint a, req_method = ''POST'',
       req_headers = [(''Content-Type'', ''application/json'')],
       req_body = Some payload, req_timeoutMs = timeoutMs a \<rparr>"

definition bundlesRequest :: "'w PlannerApp \<Rightarrow> PlannerPayload \<Rightarrow> request" where
  "bundlesRequest a payload =
     \<lparr> req_url = bundlesEndpoint a (concern payload), req_method = ''GET'',
       req_headers = [], req_body = None, req_timeoutMs = timeoutMs a \<rparr>"

definition issue :: "request \<Rightarrow> 'w sys \<Rightarrow> 'w sys" where
  "issue req s = s \<lparr> calls := calls s @ [req] \<rparr>"

text \<open>
  The body of the inner \<^verbatim>\<open>try\<close>: the bundles request, whose failure is a throw, then the
  rendering and the three calls of the sink, each of which may throw.
\<close>

definition bundles_try ::
  "host \<Rightarrow> PlannerPayload \<Rightarrow> PlannerStepData option \<Rightarrow> 'w stmt" where
  "bundles_try h payload planData s =
    (let req = bundlesRequest (app s) payload;
         s1 = issue req s
     in case jsonFetch h (parse_bundles h) req of
          Inl err \<Rightarrow> (Some err, s1)
        | Inr bundlesData \<Rightarrow>
            and_then (returning (renderBundles bundlesData))
           (and_then (emit ''bundles_success'' (BundlesDetail bundlesData))
           (and_then (returning (setStatus STATUS_SUCCESS False))
           (and_then (emit ''success'' (PlanBundlesDetail planData bundlesData))
                     (setState Success)))) s1)"

text \<open>The inner \<^verbatim>\<open>catch\<close>, entered with whatever the inner \<^verbatim>\<open>try\<close> threw.\<close>

definition bundles_catch :: "js_value \<Rightarrow> 'w stmt" where
  "bundles_catch bundlesErr =
     and_then (returning (renderBundles None))
    (and_then (returning (setStatus STATUS_PARTIAL_BUNDLES_ERROR True))
    (and_then (emit ''bundles_error'' (RawErrorDetail bundlesErr))
              (setState Error)))"

definition fetchBundles ::
  "host \<Rightarrow> PlannerPayload \<Rightarrow> PlannerStepData option \<Rightarrow> 'w stmt" where
  "fetchBundles h payload planData = try_catch (bundles_try h payload planData) bundles_catch"

text \<open>
  The body of the outer \<^verbatim>\<open>try\<close>: the plan request, the rendering, \<^verbatim>\<open>plan_success\<close>, and
  the inner \<^verbatim>\<open>try\<close>/\<^verbatim>\<open>catch\<close>.
\<close>

definition plan_try :: "host \<Rightarrow> PlannerPayload \<Rightarrow> 'w stmt" where
  "plan_try h payload s =
    (let req = planRequest (app s) payload;
         s1 = issue req s
     in case jsonFetch h (parse_plan h) req of
          Inl err \<Rightarrow> (Some err, s1)
        | Inr planData \<Rightarrow>
            and_then (returning (renderPlan planData))
           (and_then (emit ''plan_success'' (PlanDetail planData))
                     (fetchBundles h payload planData)) s1)"

text \<open>
  The outer \<^verbatim>\<open>catch\<close>, entered with whatever the outer \<^verbatim>\<open>try\<close> threw, the inner
  \<^verbatim>\<open>catch\<close> included.
\<close>

definition plan_catch :: "js_value \<Rightarrow> 'w stmt" where
  "plan_catch err s =
    (let resolved = resolveError err
     in and_then (returning (setStatus (message resolved) True))
       (and_then (emit ''error'' (ResolvedDetail resolved))
                 (setState Error)) s)"

text \<open>The \<^verbatim>\<open>finally\<close> block.\<close>

definition finally_block :: "'w stmt" where
  "finally_block s =
    (let s1 = enableForm (hideSpinner s)
     in if state (app s1) = Submitting then setState Idle s1 else (None, s1))"

definition fetchPlan :: "host \<Rightarrow> PlannerPayload \<Rightarrow> 'w stmt" where
  "fetchPlan h payload = try_finally (try_catch (plan_try h payload) plan_catch) finally_block"

text \<open>
  \<^verbatim>\<open>handleSubmit\<close> suspends at the two requests.  While it is suspended the state is
  \<open>Submitting\<close>, in which the blur handler and a second \<^verbatim>\<open>handleSubmit\<close> return at once,
  so one call is one step that is given the host's answers.  Its result is the value
  its promise rejects with, if any, and the state reached.  \<^verbatim>\<open>event.preventDefault()\<close>
  acts on the event, not on the controller.
\<close>

definition handleSubmit :: "host \<Rightarrow> 'w stmt" where
  "handleSubmit h s =
    (if state (app s) = Submitting then (None, s)
     else
       (case setState Validating s of
          (Some e, s1) \<Rightarrow> (Some e, s1)
        | (None, s1) \<Rightarrow>
            (case validateAndShowErrors h True s1 of
               (Some e, isValid, s2) \<Rightarrow> (Some e, s2)
             | (None, isValid, s2) \<Rightarrow>
                 if \<not> isValid then setState Error s2
                 else
                   (let payload = getPayload h (app s2)
                    in and_then (emit ''submit'' (PayloadDetail payload))
                      (and_then (returning disableForm)
                      (and_then (returning showSpinner)
                      (and_then (returning (setStatus STATUS_LOADING False))
                      (and_then (setState Submitting)
                                (fetchPlan h payload))))) s2))))"

section \<open>Construction and concrete scenarios\<close>

text \<open>
  \<^verbatim>\<open>encodeURIComponent\<close> on code units below U+0100: the unreserved characters stay,
  every other one becomes the \<^verbatim>\<open>%XX\<close> of its UTF-8 bytes.
\<close>

definition hex_digit :: "nat \<Rightarrow> char" where
  "hex_digit n = (if n < 10 then char_of (48 + n) else char_of (55 + n))"

definition percent :: "nat \<Rightarrow> string" where
  "percent b = [CHR ''%'', hex_digit (b div 16), hex_digit (b mod 16)]"

definition unreserved :: "char \<Rightarrow> bool" where
  "unreserved c =
     (let n = (of_char c :: nat)
      in (65 \<le> n \<and> n \<le> 90) \<or> (97 \<le> n \<and> n \<le> 122) \<or> (48 \<le> n \<and> n \<le> 57) \<or>
         c \<in> set ''-_.!~*'()'')"

definition encodeURIComponent :: "string \<Rightarrow> string" where
  "encodeURIComponent s =
     concat (map (\<lambda>c. let n = (of_char c :: nat)
                       in if unreserved c then [c]
                          else if n < 128 then percent n
                          else percent (192 + n div 64) @ percent (128 + n mod 64)) s)"

definition DEFAULT_PLAN :: string where
  "DEFAULT_PLAN = ''/api/planner/plan''"

definition DEFAULT_BUNDLES :: "string \<Rightarrow> string" where
  "DEFAULT_BUNDLES c = ''/api/bundles?age='' @ encodeURIComponent c"

text \<open>
  The constructor with the defaults of \<^verbatim>\<open>DEFAULTS.API\<close>, from the three inputs of the form
  and the sink.
\<close>

definition new_PlannerApp ::
  "input_el option \<Rightarrow> input_el option \<Rightarrow> input_el option \<Rightarrow> 'w sink \<Rightarrow> 'w PlannerApp" where
  "new_PlannerApp age cn em sink =
     \<lparr> ageInput = age, concernInput = cn, emailInput = em, state = Idle, onEvent = sink,
       planEndpoint = DEFAULT_PLAN, bundlesEndpoint = DEFAULT_BUNDLES, timeoutMs = TIMEOUT_MS,
       statusText = STATUS_IDLE, statusClass = STATUS_NEUTRAL, spinnerHidden = True,
       formBusy = False, submitDisabled = False, planSection = NoPlanView,
       bundlesSection = NoBundlesView, focused = None \<rparr>"

definition input_with :: "string \<Rightarrow> input_el option" where
  "input_with v = Some \<lparr> in_value = v, in_error = None \<rparr>"

text \<open>
  A procedure that always returns, as a sink; the sink that records what it is given, in
  order; and a recording sink that throws on the stages of a list, after recording.
\<close>

definition sink_of :: "(string \<Rightarrow> detail \<Rightarrow> 'w \<Rightarrow> 'w) \<Rightarrow> 'w sink" where
  "sink_of f stage d w = (None, f stage d w)"

definition record_event ::
  "string \<Rightarrow> detail \<Rightarrow> (string \<times> detail) list \<Rightarrow> (string \<times> detail) list" where
  "record_event stage d seen = seen @ [(stage, d)]"

definition sink_failure :: js_value where
  "sink_failure = ErrorObj (new_Error ''sink failure'')"

definition throwing_on :: "string list \<Rightarrow> (string \<times> detail) list sink" where
  "throwing_on bad stage d seen =
     (if stage \<in> set bad then Some sink_failure else None, seen @ [(stage, d)])"

definition form_sys_with ::
  "(string \<times> detail) list sink \<Rightarrow> string \<Rightarrow> string \<Rightarrow> string \<Rightarrow> (string \<times> detail) list sys" where
  "form_sys_with sink a c e =
     \<lparr> app = new_PlannerApp (input_with a) (input_with c) (input_with e) sink,
       world = [], calls = [] \<rparr>"

definition form_sys :: "string \<Rightarrow> string \<Rightarrow> string \<Rightarrow> (string \<times> detail) list sys" where
  "form_sys = form_sys_with (sink_of record_event)"

text \<open>
  A host for the scenarios of the specification: \<^verbatim>\<open>Number\<close> knows the strings used, the
  plan endpoint and the bundles endpoint answer as given.
\<close>

definition scenario_Number :: "string \<Rightarrow> js_number" where
  "scenario_Number t = (if t = ''12'' then Fin 12 else if t = ''0'' then Fin 0 else NaN)"

definition planA :: PlannerStepData where
  "planA = \<lparr> steps = Some [''Step 1'', ''Step 2''] \<rparr>"

definition planC :: PlannerStepData where
  "planC = \<lparr> steps = Some [''Rest'', ''Hydrate'', ''Call the nurse''] \<rparr>"

definition bundlesA :: "PlannerBundle list" where
  "bundlesA = [\<lparr> bundle_id = IdNumber 1, bundle_name = ''Kit A'', bundle_description = None,
                 bundle_price = Some ''$10'', bundle_href = None \<rparr>]"

definition scenario_host :: "fetch_outcome \<Rightarrow> fetch_outcome \<Rightarrow> host" where
  "scenario_host planOutcome bundlesOutcome =
     \<lparr> js_Number = scenario_Number,
       fetch = (\<lambda>req. if req_method req = ''POST'' then planOutcome else bundlesOutcome),
       parse_plan = (\<lambda>t. if t = ''PLAN'' then Some (Some planA)
                          else if t = ''PLAN C'' then Some (Some planC)
                          else if t = ''null'' then Some None else None),
       parse_bundles = (\<lambda>t. if t = ''BUNDLES'' then Some (Some bundlesA) else None),
       parse_message = (\<lambda>t. None) \<rparr>"

definition submitting_sys :: "(string \<times> detail) list sys" where
  "submitting_sys =
     (form_sys ''12'' ''teething pain'' '''')
       \<lparr> app := (app (form_sys ''12'' ''teething pain'' '''')) \<lparr> state := Submitting \<rparr> \<rparr>"

definition http_500 :: js_value where
  "http_500 = ErrorObj ((new_Error ''HTTP 500'') \<lparr> err_status := Some 500 \<rparr>)"

definition abort_error :: js_value where
  "abort_error =
     ErrorObj \<lparr> isTypeError = False, err_name = ''AbortError'',
                err_message = ''The operation was aborted.'', err_code = None,
                err_status = None \<rparr>"

section \<open>Notions used to state the properties\<close>

text \<open>
  What no step of a handler writes: the text of the three inputs, the sink, the two
  endpoints and the timeout.
\<close>

definition fixed ::
  "'w PlannerApp \<Rightarrow>
   string option \<times> string option \<times> string option \<times> 'w sink \<times>
   string \<times> (string \<Rightarrow> string) \<times> nat" where
  "fixed a =
     (map_option in_value (ageInput a), map_option in_value (concernInput a),
      map_option in_value (emailInput a), onEvent a, planEndpoint a, bundlesEndpoint a,
      timeoutMs a)"

text \<open>The Validator accepts what the form holds.\<close>

definition form_valid :: "host \<Rightarrow> 'w PlannerApp \<Rightarrow> bool" where
  "form_valid h a =
     ok (validateFields (js_Number h) (getTrimmedValue (ageInput a))
           (getTrimmedValue (concernInput a)) (getTrimmedValue (emailInput a)))"

definition form_errors :: "host \<Rightarrow> 'w PlannerApp \<Rightarrow> (string \<times> string) list" where
  "form_errors h a =
     fieldErrors (validateFields (js_Number h) (getTrimmedValue (ageInput a))
           (getTrimmedValue (concernInput a)) (getTrimmedValue (emailInput a)))"

text \<open>The answers of the two requests of an attempt on the controller \<open>a\<close>.\<close>

definition plan_answer :: "host \<Rightarrow> 'w PlannerApp \<Rightarrow> js_value + PlannerStepData option" where
  "plan_answer h a = jsonFetch h (parse_plan h) (planRequest a (getPayload h a))"

definition bundles_answer :: "host \<Rightarrow> 'w PlannerApp \<Rightarrow> js_value + PlannerBundle list option" where
  "bundles_answer h a = jsonFetch h (parse_bundles h) (bundlesRequest a (getPayload h a))"

text \<open>Every call of the sink of \<open>a\<close> returns; and what a call does to the page.\<close>

definition sink_returns :: "'w PlannerApp \<Rightarrow> bool" where
  "sink_returns a = (\<forall>stage d w. fst (onEvent a stage d w) = None)"

definition effect :: "'w PlannerApp \<Rightarrow> string \<Rightarrow> detail \<Rightarrow> 'w \<Rightarrow> 'w" where
  "effect a stage d w = snd (onEvent a stage d w)"

text \<open>
  Calling the sink of \<open>a\<close> once for each event of a list, in order, up to the first call
  that throws: the value thrown, if any, and the page afterwards.
\<close>

fun deliver :: "'w PlannerApp \<Rightarrow> (string \<times> detail) list \<Rightarrow> 'w \<Rightarrow> js_value option \<times> 'w" where
  "deliver a [] w = (None, w)"
| "deliver a (ev # evs) w =
     (case onEvent a (fst ev) (snd ev) w of
        (None, w') \<Rightarrow> deliver a evs w'
      | (Some e, w') \<Rightarrow> (Some e, w'))"

abbreviation state_change :: "PlannerState \<Rightarrow> string \<times> detail" where
  "state_change st \<equiv> (''state_change'', StateDetail st)"

text \<open>
  The events of one attempt in which every call of the sink returns, as a function of
  the form and of the host's answers.
\<close>

definition attempt_events :: "host \<Rightarrow> 'w PlannerApp \<Rightarrow> (string \<times> detail) list" where
  "attempt_events h a =
     state_change Validating #
     (if \<not> form_valid h a
      then [(''validation_failed'', FieldErrorsDetail (form_errors h a)), state_change Error]
      else (''submit'', PayloadDetail (getPayload h a)) # state_change Submitting #
           (case plan_answer h a of
              Inl err \<Rightarrow> [(''error'', ResolvedDetail (resolveError err)), state_change Error]
            | Inr planData \<Rightarrow>
                (''plan_success'', PlanDetail planData) #
                (case bundles_answer h a of
                   Inl bundlesErr \<Rightarrow>
                     [(''bundles_error'', RawErrorDetail bundlesErr), state_change Error]
                 | Inr bundlesData \<Rightarrow>
                     [(''bundles_success'', BundlesDetail bundlesData),
                      (''success'', PlanBundlesDetail planData bundlesData),
                      state_change Success])))"

text \<open>
  The order of events as section 5 of the specification words it:
  \<^verbatim>\<open>state_change(Validating)\<close>, then \<^verbatim>\<open>validation_failed\<close> and stop, or \<^verbatim>\<open>submit\<close>,
  \<^verbatim>\<open>state_change(Submitting)\<close>, \<^verbatim>\<open>plan_success\<close>, a \<^verbatim>\<open>state_change\<close>, then
  \<^verbatim>\<open>bundles_success\<close> and \<^verbatim>\<open>success\<close>, or \<^verbatim>\<open>bundles_error\<close>, then
  \<^verbatim>\<open>state_change(Error|Success)\<close>, then possibly \<^verbatim>\<open>state_change(Idle)\<close>.
\<close>

definition named :: "string \<Rightarrow> string \<times> detail \<Rightarrow> bool" where
  "named n ev = (fst ev = n)"

fun spec_closing :: "(string \<times> detail) list \<Rightarrow> bool" where
  "spec_closing [e] = (e = state_change Error \<or> e = state_change Success)"
| "spec_closing [e, e'] =
     ((e = state_change Error \<or> e = state_change Success) \<and> e' = state_change Idle)"
| "spec_closing _ = False"

fun spec_after_plan :: "(string \<times> detail) list \<Rightarrow> bool" where
  "spec_after_plan (e1 # e2 # rest) =
     ((named ''bundles_success'' e1 \<and> named ''success'' e2 \<and> spec_closing rest) \<or>
      (named ''bundles_error'' e1 \<and> spec_closing (e2 # rest)))"
| "spec_after_plan _ = False"

fun spec_order :: "(string \<times> detail) list \<Rightarrow> bool" where
  "spec_order [e0, e1] = (e0 = state_change Validating \<and> named ''validation_failed'' e1)"
| "spec_order (e0 # e1 # e2 # e3 # e4 # rest) =
     (e0 = state_change Validating \<and> named ''submit'' e1 \<and> e2 = state_change Submitting \<and>
      named ''plan_success'' e3 \<and> named ''state_change'' e4 \<and> spec_after_plan rest)"
| "spec_order _ = False"

text \<open>
  An event whose detail is a \<^verbatim>\<open>PlannerResolvedError\<close> or a field-errors mapping, and an
  event of one of the three failure stages.
\<close>

definition carries_report :: "string \<times> detail \<Rightarrow> bool" where
  "carries_report ev =
     (case snd ev of FieldErrorsDetail fe \<Rightarrow> True | ResolvedDetail r \<Rightarrow> True | _ \<Rightarrow> False)"

definition failure_event :: "string \<times> detail \<Rightarrow> bool" where
  "failure_event ev = (fst ev \<in> {''validation_failed'', ''error'', ''bundles_error''})"

text \<open>The condition under which \<^verbatim>\<open>resolveError\<close> answers \<^verbatim>\<open>TIMEOUT\<close>.\<close>

definition timeout_flagged :: "js_error \<Rightarrow> bool" where
  "timeout_flagged e = (err_code e = Some ''TIMEOUT'' \<or> err_message e = ''timeout'')"

section \<open>Scenarios of the specification\<close>

definition host_A :: host where
  "host_A = scenario_host (Responds 200 ''PLAN'') (Responds 200 ''BUNDLES'')"

definition host_D :: host where
  "host_D = scenario_host (Rejects abort_error) (Responds 200 ''BUNDLES'')"

definition host_C :: host where
  "host_C = scenario_host (Responds 200 ''PLAN C'') (Responds 500 [])"

definition host_N :: host where
  "host_N = scenario_host (Responds 200 ''null'') (Responds 500 [])"

definition host_E :: host where
  "host_E = scenario_host (Responds 200 ''PLAN'') (Responds 500 [])"

definition sys_A :: "(string \<times> detail) list sys" where
  "sys_A = form_sys ''12'' ''teething pain'' []"

definition sys_B :: "(string \<times> detail) list sys" where
  "sys_B = form_sys [] ''teething pain'' []"

definition payload_A :: PlannerPayload where
  "payload_A = \<lparr> age_months = Fin 12, concern = ''teething pain'', email = None \<rparr>"

section \<open>The experience layer (experience.js)\<close>

text \<open>
  The subscriber modules, as far as \<^verbatim>\<open>handlePlannerEvent\<close> reaches them.  A module that
  was not constructed is \<open>None\<close>.  The registry keeps its list element, which
  \<^verbatim>\<open>querySelector\<close> may not have found (\<^verbatim>\<open>init()\<close> returns early then, but the module
  stays in place).  Writes to \<^verbatim>\<open>localStorage\<close> sit in a \<^verbatim>\<open>try\<close>/\<^verbatim>\<open>catch\<close> of their own
  and are left out.
\<close>

record Milestone =
  m_id :: string
  m_label :: string
  m_done :: bool

text \<open>The id of a seeded item is \<^verbatim>\<open>bundle-\<close> followed by the id of the bundle.\<close>

datatype item_key = FromBundle bundle_key | OtherItem string

record RegistryItem =
  item_id :: item_key
  item_name :: string
  item_note :: string
  item_url :: "string option"
  item_sourceBundleId :: bundle_key

datatype registry_view = NotRendered | RegistryEmptyText | RegistryList "RegistryItem list"

record RegistryBuilder =
  reg_listEl :: "registry_view option"
  reg_items :: "RegistryItem list"

record snapshot =
  snap_plan :: "PlannerStepData option"
  snap_bundles :: "PlannerBundle list option"

text \<open>
  The experience application with its \<^verbatim>\<open>config.onEvent\<close>, a callback on a part of the page
  of type \<open>'x\<close>, when one was configured.
\<close>

record 'x ExperienceApp =
  config_onEvent :: "(string \<Rightarrow> string \<Rightarrow> detail \<Rightarrow> 'x \<Rightarrow> js_value option \<times> 'x) option"
  grokQuiz :: "snapshot option"
  registry :: "RegistryBuilder option"
  milestones :: "Milestone list option"
  priceAlerts :: "PlannerBundle list option option"
  reviewForm :: "PlannerBundle list option option"
  chat :: "snapshot option"
  latestPlan :: "PlannerStepData option"
  latestBundles :: "PlannerBundle list option"

text \<open>
  The page a sink acts on: whatever the planner's own sink keeps (\<open>observer\<close>), the
  experience application, and what its \<^verbatim>\<open>config.onEvent\<close> keeps.
\<close>

record ('a, 'x) page =
  observer :: 'a
  experience :: "'x ExperienceApp"
  analytics :: 'x

text \<open>\<^verbatim>\<open>MilestoneTracker.syncFromPlan\<close>: seeds the list from the steps when it is empty.\<close>

definition syncFromPlan :: "PlannerStepData option \<Rightarrow> Milestone list \<Rightarrow> Milestone list" where
  "syncFromPlan plan ms =
     (case plan of
        None \<Rightarrow> ms
      | Some p \<Rightarrow>
          (case steps p of
             None \<Rightarrow> ms
           | Some xs \<Rightarrow>
               if length xs = 0 then ms
               else if length ms > 0 then ms
               else map (\<lambda>(label, index).
                           \<lparr> m_id = ''plan-'' @ show_nat (index + 1), m_label = trim label,
                             m_done = False \<rparr>)
                        (zip xs [0 ..< length xs])))"

text \<open>
  \<^verbatim>\<open>RegistryBuilder.render\<close> starts with \<^verbatim>\<open>this.listEl.innerHTML = ''\<close>: a \<^verbatim>\<open>TypeError\<close> when
  there is no list element.
\<close>

definition null_innerHTML :: js_value where
  "null_innerHTML =
     ErrorObj \<lparr> isTypeError = True, err_name = ''TypeError'',
                err_message = ''Cannot set properties of null (setting 'innerHTML')'',
                err_code = None, err_status = None \<rparr>"

definition registry_render :: "RegistryBuilder \<Rightarrow> js_value option \<times> RegistryBuilder" where
  "registry_render r =
     (case reg_listEl r of
        None \<Rightarrow> (Some null_innerHTML, r)
      | Some v \<Rightarrow>
          (None, r \<lparr> reg_listEl := Some (if length (reg_items r) = 0 then RegistryEmptyText
                                          else RegistryList (reg_items r)) \<rparr>))"

text \<open>
  \<^verbatim>\<open>RegistryBuilder.syncFromBundles\<close>: seeds the items from the bundles when empty, then
  renders.
\<close>

definition registry_item :: "PlannerBundle \<Rightarrow> RegistryItem" where
  "registry_item b =
     \<lparr> item_id = FromBundle (bundle_id b),
       item_name = bundle_name b,
       item_note = (case bundle_description b of
                      Some t \<Rightarrow> if t \<noteq> [] then t
                                else (case bundle_price b of Some q \<Rightarrow> q | None \<Rightarrow> [])
                    | None \<Rightarrow> (case bundle_price b of Some q \<Rightarrow> q | None \<Rightarrow> [])),
       item_url = bundle_href b,
       item_sourceBundleId = bundle_id b \<rparr>"

definition syncFromBundles ::
  "PlannerBundle list option \<Rightarrow> RegistryBuilder \<Rightarrow> js_value option \<times> RegistryBuilder" where
  "syncFromBundles bundles r =
     (case bundles of
        None \<Rightarrow> (None, r)
      | Some bs \<Rightarrow>
          if length bs = 0 then (None, r)
          else if length (reg_items r) > 0 then (None, r)
          else registry_render (r \<lparr> reg_items := reg_items r @ map registry_item bs \<rparr>))"

text \<open>\<^verbatim>\<open>detail?.plan ?? null\<close> and \<^verbatim>\<open>detail?.bundles ?? null\<close>.\<close>

definition detail_plan :: "detail \<Rightarrow> PlannerStepData option" where
  "detail_plan d = (case d of PlanDetail p \<Rightarrow> p | PlanBundlesDetail p b \<Rightarrow> p | _ \<Rightarrow> None)"

definition detail_bundles :: "detail \<Rightarrow> PlannerBundle list option" where
  "detail_bundles d = (case d of BundlesDetail b \<Rightarrow> b | PlanBundlesDetail p b \<Rightarrow> b | _ \<Rightarrow> None)"

text \<open>
  The \<^verbatim>\<open>switch\<close> of \<^verbatim>\<open>handlePlannerEvent\<close>.  A throw of the registry ends it: the modules
  after the registry are not reached.
\<close>

definition after_registry :: "PlannerBundle list option \<Rightarrow> 'x ExperienceApp \<Rightarrow> 'x ExperienceApp" where
  "after_registry bundles e =
     e \<lparr> priceAlerts := map_option (\<lambda>_. bundles) (priceAlerts e),
         reviewForm := map_option (\<lambda>_. bundles) (reviewForm e),
         chat := map_option (\<lambda>c. c \<lparr> snap_bundles := bundles \<rparr>) (chat e) \<rparr>"

definition dispatch :: "string \<Rightarrow> detail \<Rightarrow> 'x ExperienceApp \<Rightarrow> js_value option \<times> 'x ExperienceApp" where
  "dispatch stage d e =
     (if stage = ''plan_success'' then
        (let plan = detail_plan d
         in (None, e \<lparr> latestPlan := plan,
                       grokQuiz := map_option (\<lambda>q. q \<lparr> snap_plan := plan \<rparr>) (grokQuiz e),
                       milestones := map_option (syncFromPlan plan) (milestones e),
                       chat := map_option (\<lambda>c. c \<lparr> snap_plan := plan \<rparr>) (chat e) \<rparr>))
      else if stage = ''bundles_success'' then
        (let bundles = detail_bundles d;
             e1 = e \<lparr> latestBundles := bundles \<rparr>
         in case registry e1 of
              None \<Rightarrow> (None, after_registry bundles e1)
            | Some r \<Rightarrow>
                (case syncFromBundles bundles r of
                   (Some err, r') \<Rightarrow> (Some err, e1 \<lparr> registry := Some r' \<rparr>)
                 | (None, r') \<Rightarrow> (None, after_registry bundles (e1 \<lparr> registry := Some r' \<rparr>))))
      else (None, e))"

text \<open>
  \<^verbatim>\<open>handlePlannerEvent\<close>: the \<^verbatim>\<open>switch\<close>, then \<^verbatim>\<open>config.onEvent?.('planner_event', ...)\<close>.
\<close>

definition handlePlannerEvent ::
  "string \<Rightarrow> detail \<Rightarrow> ('a, 'x) page \<Rightarrow> js_value option \<times> ('a, 'x) page" where
  "handlePlannerEvent stage d p =
     (case dispatch stage d (experience p) of
        (Some err, e') \<Rightarrow> (Some err, p \<lparr> experience := e' \<rparr>)
      | (None, e') \<Rightarrow>
          (case config_onEvent e' of
             None \<Rightarrow> (None, p \<lparr> experience := e' \<rparr>)
           | Some callback \<Rightarrow>
               (case callback ''planner_event'' stage d (analytics p) of
                  (thrown, x) \<Rightarrow> (thrown, p \<lparr> experience := e', analytics := x \<rparr>))))"

text \<open>
  \<^verbatim>\<open>wirePlannerEvents(plannerApp)\<close>: nothing for a missing planner; otherwise the sink is
  replaced by one that calls the original and then \<^verbatim>\<open>handlePlannerEvent\<close>.
\<close>

definition wirePlannerEvents ::
  "('a, 'x) page PlannerApp option \<Rightarrow> ('a, 'x) page PlannerApp option" where
  "wirePlannerEvents plannerApp =
     (case plannerApp of
        None \<Rightarrow> None
      | Some pa \<Rightarrow>
          (let originalOnEvent = onEvent pa
           in Some (pa \<lparr> onEvent := (\<lambda>stage d p.
                          case originalOnEvent stage d p of
                            (Some err, p1) \<Rightarrow> (Some err, p1)
                          | (None, p1) \<Rightarrow> handlePlannerEvent stage d p1) \<rparr>)))"

text \<open>A sink of the planner that returns and acts on its own part of the page.\<close>

definition on_observer :: "(string \<Rightarrow> detail \<Rightarrow> 'a \<Rightarrow> 'a) \<Rightarrow> ('a, 'x) page sink" where
  "on_observer f stage d p = (None, p \<lparr> observer := f stage d (observer p) \<rparr>)"

text \<open>
  A page whose planner records its events and whose experience layer has every module,
  with or without the list element of the registry; the experience layer's own callback
  does nothing, as in the bootstrap code.
\<close>

definition new_ExperienceApp :: "registry_view option \<Rightarrow> unit ExperienceApp" where
  "new_ExperienceApp listEl =
     \<lparr> config_onEvent = Some (\<lambda>stage inner d x. (None, x)),
       grokQuiz = Some \<lparr> snap_plan = None, snap_bundles = None \<rparr>,
       registry = Some \<lparr> reg_listEl = listEl, reg_items = [] \<rparr>,
       milestones = Some [], priceAlerts = Some None,
       reviewForm = Some None, chat = Some \<lparr> snap_plan = None, snap_bundles = None \<rparr>,
       latestPlan = None, latestBundles = None \<rparr>"

definition page_sys :: "registry_view option \<Rightarrow> ((string \<times> detail) list, unit) page sys" where
  "page_sys listEl =
     \<lparr> app = new_PlannerApp (input_with ''12'') (input_with ''teething pain'') (input_with [])
               (on_observer record_event),
       world = \<lparr> observer = [], experience = new_ExperienceApp listEl, analytics = () \<rparr>,
       calls = [] \<rparr>"

definition wired :: "('a, 'x) page sys \<Rightarrow> ('a, 'x) page sys" where
  "wired s = (case wirePlannerEvents (Some (app s)) of None \<Rightarrow> s | Some pa \<Rightarrow> s \<lparr> app := pa \<rparr>)"

section \<open>The static-asset responder\<close>

text \<open>
  \<^verbatim>\<open>String.prototype.split\<close> with a one-character separator, and
  \<^verbatim>\<open>replace(/\.\./g, '')\<close>, which deletes the occurrences of two dots from left to right.
\<close>

fun split_on :: "char \<Rightarrow> string \<Rightarrow> string list" where
  "split_on sep [] = [[]]"
| "split_on sep (c # cs) =
     (if c = sep then [] # split_on sep cs
      else (case split_on sep cs of p # ps \<Rightarrow> (c # p) # ps | [] \<Rightarrow> [[c]]))"

fun remove_dotdot :: "string \<Rightarrow> string" where
  "remove_dotdot (c # d # cs) =
     (if c = CHR ''.'' \<and> d = CHR ''.'' then remove_dotdot cs else c # remove_dotdot (d # cs))"
| "remove_dotdot cs = cs"

text \<open>
  \<^verbatim>\<open>path.join\<close> and \<^verbatim>\<open>path.normalize\<close> of Node, for POSIX paths: the non-empty
  arguments are joined with \<^verbatim>\<open>/\<close> and the result is normalised, which resolves \<^verbatim>\<open>.\<close> and
  \<^verbatim>\<open>..\<close> segments; in an absolute path a \<^verbatim>\<open>..\<close> at the root is dropped.
\<close>

fun normalizeString :: "bool \<Rightarrow> string list \<Rightarrow> string list \<Rightarrow> string list" where
  "normalizeString allowAboveRoot acc [] = acc"
| "normalizeString allowAboveRoot acc (seg # segs) =
     (if seg = [] \<or> seg = ''.'' then normalizeString allowAboveRoot acc segs
      else if seg = ''..'' then
        (if acc \<noteq> [] \<and> last acc \<noteq> ''..'' then normalizeString allowAboveRoot (butlast acc) segs
         else if allowAboveRoot then normalizeString allowAboveRoot (acc @ [''..'']) segs
         else normalizeString allowAboveRoot acc segs)
      else normalizeString allowAboveRoot (acc @ [seg]) segs)"

fun join_segments :: "string list \<Rightarrow> string" where
  "join_segments [] = []"
| "join_segments [x] = x"
| "join_segments (x # xs) = x @ ''/'' @ join_segments xs"

definition path_normalize :: "string \<Rightarrow> string" where
  "path_normalize p =
     (if p = [] then ''.''
      else
        (let isAbsolute = (hd p = CHR ''/'');
             trailingSeparator = (last p = CHR ''/'');
             q = join_segments (normalizeString (\<not> isAbsolute) [] (split_on CHR ''/'' p))
         in if q = [] then (if isAbsolute then ''/'' else if trailingSeparator then ''./'' else ''.'')
            else (let q' = (if trailingSeparator then q @ ''/'' else q)
                  in if isAbsolute then CHR ''/'' # q' else q')))"

definition path_join :: "string list \<Rightarrow> string" where
  "path_join args =
     (let parts = filter (\<lambda>a. a \<noteq> []) args
      in if parts = [] then ''.'' else path_normalize (join_segments parts))"

text \<open>
  \<^verbatim>\<open>path.extname\<close>, which ignores trailing separators, and \<^verbatim>\<open>toLowerCase\<close> on code
  units below U+0100.
\<close>

definition path_extname :: "string \<Rightarrow> string" where
  "path_extname p =
     (let base = last (split_on CHR ''/'' (rev (dropWhile (\<lambda>c. c = CHR ''/'') (rev p))));
          stem = rev (dropWhile (\<lambda>c. c \<noteq> CHR ''.'') (rev base))
      in if base = ''..'' \<or> length stem \<le> 1 then []
         else CHR ''.'' # drop (length stem) base)"

definition toLowerCase :: "string \<Rightarrow> string" where
  "toLowerCase t =
     map (\<lambda>c. let n = (of_char c :: nat)
               in if (65 \<le> n \<and> n \<le> 90) \<or> (192 \<le> n \<and> n \<le> 222 \<and> n \<noteq> 215)
                  then char_of (n + 32) else c) t"

datatype fs_entry = File string | Directory

text \<open>
  The process: the two environment variables, the working directory, the file system,
  and the base64 decoding of \<^verbatim>\<open>Buffer.from(b64, 'base64').toString()\<close>.
\<close>

record process =
  BASIC_AUTH_USERNAME :: "string option"
  BASIC_AUTH_PASSWORD :: "string option"
  cwd :: string
  fs :: "string \<Rightarrow> fs_entry option"
  base64_decode :: "string \<Rightarrow> string"

record http_req =
  authorization :: "string option"
  url :: string

record http_res =
  statusCode :: nat
  content_type :: "string option"
  www_authenticate :: "string option"
  sent :: string

definition mimeTypes :: "(string \<times> string) list" where
  "mimeTypes =
     [(''.html'', ''text/html''), (''.css'', ''text/css''), (''.js'', ''application/javascript''),
      (''.json'', ''application/json''), (''.png'', ''image/png''), (''.jpg'', ''image/jpeg''),
      (''.jpeg'', ''image/jpeg''), (''.gif'', ''image/gif''), (''.svg'', ''image/svg+xml''),
      (''.txt'', ''text/plain'')]"

definition mimeTypes_alt :: "(string \<times> string) list" where
  "mimeTypes_alt =
     [(''.html'', ''text/html''), (''.js'', ''text/javascript''), (''.css'', ''text/css''),
      (''.png'', ''image/png''), (''.jpg'', ''image/jpeg''), (''.jpeg'', ''image/jpeg''),
      (''.gif'', ''image/gif''), (''.svg'', ''image/svg+xml''), (''.ico'', ''image/x-icon''),
      (''.txt'', ''text/plain'')]"

text \<open>The first two pieces of the decoded credentials; the second may be missing.\<close>

definition credentials :: "process \<Rightarrow> http_req \<Rightarrow> string option \<times> string option" where
  "credentials pr req =
     (let auth = (case authorization req of None \<Rightarrow> [] | Some a \<Rightarrow> a);
          pieces = split_on CHR '' '' auth;
          b64 = (if length pieces > 1 \<and> pieces ! 1 \<noteq> [] then pieces ! 1 else []);
          decoded = split_on CHR '':'' (base64_decode pr b64)
      in (Some (hd decoded), if length decoded > 1 then Some (decoded ! 1) else None))"

text \<open>The path that is looked up: joined, then stripped of \<^verbatim>\<open>..\<close>.\<close>

definition filePath :: "process \<Rightarrow> http_req \<Rightarrow> string" where
  "filePath pr req =
     remove_dotdot
       (path_join [cwd pr, ''frontend'', ''public'',
                   if url req = ''/'' then ''index.html'' else url req])"

definition respond ::
  "(string \<times> string) list \<Rightarrow> string \<Rightarrow> string \<Rightarrow> string \<Rightarrow> process \<Rightarrow> http_req \<Rightarrow> http_res" where
  "respond table realm denied missing pr req =
     (let (username, password) = credentials pr req
      in if username = BASIC_AUTH_USERNAME pr \<and> password = BASIC_AUTH_PASSWORD pr then
           (case fs pr (filePath pr req) of
              Some (File data) \<Rightarrow>
                (let ext = toLowerCase (path_extname (filePath pr req));
                     contentType = (case map_of table ext of
                                      Some t \<Rightarrow> t
                                    | None \<Rightarrow> ''application/octet-stream'')
                 in \<lparr> statusCode = 200, content_type = Some contentType,
                      www_authenticate = None, sent = data \<rparr>)
            | _ \<Rightarrow> \<lparr> statusCode = 404, content_type = None, www_authenticate = None,
                     sent = missing \<rparr>)
         else \<lparr> statusCode = 401, content_type = None, www_authenticate = Some realm,
                sent = denied \<rparr>)"

text \<open>The two responders of the repository differ in their table and their texts.\<close>

definition handler :: "process \<Rightarrow> http_req \<Rightarrow> http_res" where
  "handler = respond mimeTypes ''Basic realm=\"Protected Area\"'' ''Authentication required''
               ''Not Found''"

definition handler_alt :: "process \<Rightarrow> http_req \<Rightarrow> http_res" where
  "handler_alt = respond mimeTypes_alt ''Basic realm=\"Protected\"'' ''Auth required''
                   ''Not Found''"

text \<open>The public root, and whether a path lies inside it.\<close>

definition public_root :: "process \<Rightarrow> string" where
  "public_root pr = path_join [cwd pr, ''frontend'', ''public'']"

definition inside_root :: "process \<Rightarrow> string \<Rightarrow> bool" where
  "inside_root pr p = (take (length (public_root pr) + 1) p = public_root pr @ ''/'')"

text \<open>
  A process started in \<^verbatim>\<open>/app\<close>, with one public file and one file outside the public
  root, and a request with the right credentials for a path that climbs out of the root.
\<close>

definition demo_process :: process where
  "demo_process =
     \<lparr> BASIC_AUTH_USERNAME = Some ''user'', BASIC_AUTH_PASSWORD = Some ''pass'',
       cwd = ''/app'',
       fs = (\<lambda>p. if p = ''/app/frontend/public/index.html'' then Some (File ''<html></html>'')
                  else if p = ''/app/.env'' then Some (File ''SECRET=1'')
                  else if p = ''/app/frontend/public'' then Some Directory
                  else None),
       base64_decode = (\<lambda>t. if t = ''dXNlcjpwYXNz'' then ''user:pass'' else []) \<rparr>"

definition traversal_request :: http_req where
  "traversal_request = \<lparr> authorization = Some ''Basic dXNlcjpwYXNz'', url = ''/../../.env'' \<rparr>"


section \<open>The handler, step by step\<close>

lemmas stmt_defs = and_then_def returning_def try_catch_def try_finally_def

lemmas ui_defs = showSpinner_def hideSpinner_def setStatus_def clearStatus_def disableForm_def
  enableForm_def clearFieldErrors_def renderPlan_def renderBundles_def issue_def

lemma onEvent_returns: "sink_returns a \<Longrightarrow> onEvent a stage d w = (None, effect a stage d w)"
  by (simp add: sink_returns_def effect_def prod_eq_iff)

lemma deliver_fixed: "fixed a = fixed b \<Longrightarrow> deliver a evs w = deliver b evs w"
  by (induction evs arbitrary: w) (auto simp add: fixed_def split: prod.splits option.splits)

text \<open>A sink that never throws returns from every call of every attempt.\<close>

lemma sink_returns_deliver: "sink_returns a \<Longrightarrow> fst (deliver a evs w) = None"
  by (induction evs arbitrary: w) (simp_all add: onEvent_returns)

lemma sink_of_returns: "onEvent a = sink_of f \<Longrightarrow> sink_returns a"
  by (simp add: sink_returns_def sink_of_def)

lemma fixed_state_upd [simp]: "fixed (a\<lparr>state := x\<rparr>) = fixed a"
  by (simp add: fixed_def)

lemma getTrimmedValue_setFieldError [simp]:
  "getTrimmedValue (map_option (setFieldError m) i) = getTrimmedValue i"
  by (cases i) (simp_all add: getTrimmedValue_def setFieldError_def)

lemma in_value_setFieldError [simp]:
  "map_option in_value (map_option (setFieldError m) i) = map_option in_value i"
  by (cases i) (simp_all add: setFieldError_def)

lemma showErrors_frame:
  "fixed (app (showErrors h f s)) = fixed (app s)"
  "state (app (showErrors h f s)) = state (app s)"
  "world (showErrors h f s) = world s"
  "calls (showErrors h f s) = calls s"
  "planSection (app (showErrors h f s)) = planSection (app s)"
  "bundlesSection (app (showErrors h f s)) = bundlesSection (app s)"
  by (simp_all add: showErrors_def Let_def clearFieldErrors_def setStatus_def clearStatus_def
      fixed_def)

lemma showErrors_onEvent: "onEvent (app (showErrors h f s)) = onEvent (app s)"
  using showErrors_frame(1) [of h f s] by (simp add: fixed_def)

text \<open>What \<^verbatim>\<open>validateAndShowErrors\<close> yields, whatever the sink does.\<close>

lemma validateAndShowErrors_valid:
  "form_valid h (app s) \<Longrightarrow>
   validateAndShowErrors h f s = (None, True, showErrors h f s)"
  by (simp add: validateAndShowErrors_def form_valid_def Let_def)

lemma validateAndShowErrors_invalid:
  "\<not> form_valid h (app s) \<Longrightarrow>
   validateAndShowErrors h f s =
     (fst (onEvent (app s) ''validation_failed'' (FieldErrorsDetail (form_errors h (app s))) (world s)),
      False,
      (showErrors h f s) \<lparr> world :=
         snd (onEvent (app s) ''validation_failed'' (FieldErrorsDetail (form_errors h (app s)))
                (world s)) \<rparr>)"
  by (simp add: validateAndShowErrors_def form_valid_def form_errors_def Let_def emit_def
      showErrors_onEvent showErrors_frame case_prod_beta)

lemma getTrimmedValue_cong:
  "map_option in_value i = map_option in_value j \<Longrightarrow> getTrimmedValue i = getTrimmedValue j"
  by (cases i; cases j) (simp_all add: getTrimmedValue_def)

lemma fixed_inputs:
  assumes "fixed a = fixed b"
  shows "getTrimmedValue (ageInput a) = getTrimmedValue (ageInput b)"
    and "getTrimmedValue (concernInput a) = getTrimmedValue (concernInput b)"
    and "getTrimmedValue (emailInput a) = getTrimmedValue (emailInput b)"
  using assms by (auto simp: fixed_def intro: getTrimmedValue_cong)

lemma form_valid_fixed:
  assumes "fixed a = fixed b"
  shows "form_valid h a = form_valid h b"
  using fixed_inputs [OF assms] by (simp add: form_valid_def)

lemma form_errors_fixed:
  assumes "fixed a = fixed b"
  shows "form_errors h a = form_errors h b"
  using fixed_inputs [OF assms] by (simp add: form_errors_def)

lemma form_state_upd [simp]:
  "form_valid h (a\<lparr>state := x\<rparr>) = form_valid h a"
  "form_errors h (a\<lparr>state := x\<rparr>) = form_errors h a"
  by (simp_all add: form_valid_def form_errors_def)

lemma getPayload_fixed:
  assumes "fixed a = fixed b"
  shows "getPayload h a = getPayload h b"
  using fixed_inputs [OF assms] by (simp add: getPayload_def)

lemma planRequest_fixed: "fixed a = fixed b \<Longrightarrow> planRequest a p = planRequest b p"
  by (simp add: planRequest_def fixed_def)

lemma bundlesRequest_fixed: "fixed a = fixed b \<Longrightarrow> bundlesRequest a p = bundlesRequest b p"
  by (simp add: bundlesRequest_def fixed_def)

lemma form_errors_nonempty: "\<not> form_valid h a \<Longrightarrow> form_errors h a \<noteq> []"
  by (simp add: form_valid_def form_errors_def validateFields_def Let_def)

text \<open>The path of a rejected form, whatever the sink does.\<close>

lemma handleSubmit_invalid:
  assumes "state (app s) \<noteq> Submitting" and "\<not> form_valid h (app s)"
  shows "calls (snd (handleSubmit h s)) = calls s"
    and "(fst (handleSubmit h s), world (snd (handleSubmit h s))) =
           deliver (app s)
             [state_change Validating,
              (''validation_failed'', FieldErrorsDetail (form_errors h (app s))),
              state_change Error] (world s)"
    and "fst (deliver (app s)
             [state_change Validating,
              (''validation_failed'', FieldErrorsDetail (form_errors h (app s)))] (world s)) = None
         \<Longrightarrow> state (app (snd (handleSubmit h s))) = Error"
    and "planSection (app (snd (handleSubmit h s))) = planSection (app s)"
  using assms
  by (auto simp add: handleSubmit_def setState_def emit_def validateAndShowErrors_invalid
      showErrors_frame showErrors_onEvent split: prod.splits option.splits)


lemma deliver_append:
  "deliver a (xs @ ys) w =
     (case deliver a xs w of (None, w') \<Rightarrow> deliver a ys w' | (Some e, w') \<Rightarrow> (Some e, w'))"
  by (induction xs arbitrary: w) (auto split: prod.splits option.splits)

lemma deliver_append_returns:
  assumes "fst (deliver a (xs @ ys) w) = None"
  shows "fst (deliver a xs w) = None"
    and "fst (deliver a ys (snd (deliver a xs w))) = None"
    and "snd (deliver a (xs @ ys) w) = snd (deliver a ys (snd (deliver a xs w)))"
  using assms by (auto simp add: deliver_append split: prod.splits option.splits)

text \<open>A list of calls that all return, read as one fact for each call.\<close>

lemma deliver_returns_iff:
  "fst (deliver a ((stage, d) # evs) w) = None \<longleftrightarrow>
     onEvent a stage d w = (None, effect a stage d w) \<and>
     fst (deliver a evs (effect a stage d w)) = None"
  by (auto simp add: effect_def split: prod.splits option.splits)

lemmas calls_return = deliver_returns_iff deliver.simps(1) fst_conv snd_conv simp_thms

lemma getPayload_showErrors [simp]:
  "getPayload h (app (showErrors h' f s)) = getPayload h (app s)"
  by (rule getPayload_fixed) (rule showErrors_frame)

lemma getPayload_state_upd [simp]: "getPayload h (a\<lparr>state := x\<rparr>) = getPayload h a"
  by (simp add: getPayload_def)

lemma handleSubmit_valid:
  assumes ns: "state (app s) \<noteq> Submitting" and v: "form_valid h (app s)"
    and r: "fst (deliver (app s)
              [state_change Validating,
               (''submit'', PayloadDetail (getPayload h (app s))),
               state_change Submitting] (world s)) = None"
  obtains s5 where "handleSubmit h s = fetchPlan h (getPayload h (app s)) s5"
    and "fixed (app s5) = fixed (app s)"
    and "calls s5 = calls s"
    and "world s5 = snd (deliver (app s)
           [state_change Validating,
            (''submit'', PayloadDetail (getPayload h (app s))),
            state_change Submitting] (world s))"
    and "planSection (app s5) = planSection (app s)"
    and "bundlesSection (app s5) = bundlesSection (app s)"
proof
  note ev = r [unfolded calls_return]
  let ?s2 = "showErrors h True (snd (setState Validating s))"
  let ?s3 = "snd (emit ''submit'' (PayloadDetail (getPayload h (app s))) ?s2)"
  let ?s4 = "setStatus STATUS_LOADING False (showSpinner (disableForm ?s3))"
  let ?s5 = "snd (setState Submitting ?s4)"
  note defs = setState_def emit_def stmt_defs ui_defs showErrors_frame showErrors_onEvent
  show "handleSubmit h s = fetchPlan h (getPayload h (app s)) ?s5"
    using ns v
    by (simp add: handleSubmit_def validateAndShowErrors_valid ev defs Let_def)
  show "fixed (app ?s5) = fixed (app s)"
    using showErrors_frame(1) [of h True "snd (setState Validating s)"]
    by (simp add: ev defs fixed_def)
  show "calls ?s5 = calls s"
    by (simp add: ev defs)
  show "world ?s5 = snd (deliver (app s)
           [state_change Validating,
            (''submit'', PayloadDetail (getPayload h (app s))),
            state_change Submitting] (world s))"
    by (simp add: ev defs)
  show "planSection (app ?s5) = planSection (app s)"
    by (simp add: ev defs)
  show "bundlesSection (app ?s5) = bundlesSection (app s)"
    by (simp add: ev defs)
qed

text \<open>The three ways through \<^verbatim>\<open>fetchPlan\<close> when the sink returns from each call.\<close>

lemmas fetchPlan_defs = fetchPlan_def plan_try_def plan_catch_def
      fetchBundles_def bundles_try_def bundles_catch_def bundlesRequest_def planRequest_def
      finally_block_def setState_def emit_def stmt_defs ui_defs Let_def

lemma fetchPlan_plan_failed:
  assumes a: "jsonFetch h (parse_plan h) (planRequest (app s) p) = Inl e"
    and r: "fst (deliver (app s)
              [(''error'', ResolvedDetail (resolveError e)), state_change Error] (world s)) = None"
  shows "fst (fetchPlan h p s) = None"
    and "state (app (snd (fetchPlan h p s))) = Error"
    and "world (snd (fetchPlan h p s)) =
           snd (deliver (app s)
              [(''error'', ResolvedDetail (resolveError e)), state_change Error] (world s))"
    and "calls (snd (fetchPlan h p s)) = calls s @ [planRequest (app s) p]"
    and "planSection (app (snd (fetchPlan h p s))) = planSection (app s)"
    and "bundlesSection (app (snd (fetchPlan h p s))) = bundlesSection (app s)"
  using a [unfolded planRequest_def]
  by (simp_all add: r [unfolded calls_return] fetchPlan_defs)

lemma fetchPlan_bundles_failed:
  assumes a: "jsonFetch h (parse_plan h) (planRequest (app s) p) = Inr planData"
    and b: "jsonFetch h (parse_bundles h) (bundlesRequest (app s) p) = Inl e"
    and r: "fst (deliver (app s)
              [(''plan_success'', PlanDetail planData),
               (''bundles_error'', RawErrorDetail e), state_change Error] (world s)) = None"
  shows "fst (fetchPlan h p s) = None"
    and "state (app (snd (fetchPlan h p s))) = Error"
    and "world (snd (fetchPlan h p s)) =
           snd (deliver (app s)
              [(''plan_success'', PlanDetail planData),
               (''bundles_error'', RawErrorDetail e), state_change Error] (world s))"
    and "calls (snd (fetchPlan h p s)) =
           calls s @ [planRequest (app s) p, bundlesRequest (app s) p]"
    and "planSection (app (snd (fetchPlan h p s))) = PlanView (plan_steps planData)"
    and "bundlesSection (app (snd (fetchPlan h p s))) = NoBundlesMessage"
  using a [unfolded planRequest_def] b [unfolded bundlesRequest_def]
  by (simp_all add: r [unfolded calls_return] fetchPlan_defs)

lemma fetchPlan_success:
  assumes a: "jsonFetch h (parse_plan h) (planRequest (app s) p) = Inr planData"
    and b: "jsonFetch h (parse_bundles h) (bundlesRequest (app s) p) = Inr bundlesData"
    and r: "fst (deliver (app s)
              [(''plan_success'', PlanDetail planData),
               (''bundles_success'', BundlesDetail bundlesData),
               (''success'', PlanBundlesDetail planData bundlesData),
               state_change Success] (world s)) = None"
  shows "fst (fetchPlan h p s) = None"
    and "state (app (snd (fetchPlan h p s))) = Success"
    and "world (snd (fetchPlan h p s)) =
           snd (deliver (app s)
              [(''plan_success'', PlanDetail planData),
               (''bundles_success'', BundlesDetail bundlesData),
               (''success'', PlanBundlesDetail planData bundlesData),
               state_change Success] (world s))"
    and "calls (snd (fetchPlan h p s)) =
           calls s @ [planRequest (app s) p, bundlesRequest (app s) p]"
    and "planSection (app (snd (fetchPlan h p s))) = PlanView (plan_steps planData)"
    and "bundlesSection (app (snd (fetchPlan h p s))) =
           (case bundlesData of
              None \<Rightarrow> NoBundlesMessage
            | Some bs \<Rightarrow> if bs = [] then NoBundlesMessage else BundleCards bs)"
  using a [unfolded planRequest_def] b [unfolded bundlesRequest_def]
  by (simp_all add: r [unfolded calls_return] fetchPlan_defs split: option.splits)


text \<open>
  A valid attempt whose first three calls of the sink return reaches \<^verbatim>\<open>fetchPlan\<close>; what
  follows is stated for the events \<open>post\<close> still to come.
\<close>

lemma handleSubmit_then:
  assumes ns: "state (app s) \<noteq> Submitting" and v: "form_valid h (app s)"
    and r: "fst (deliver (app s)
              ([state_change Validating,
                (''submit'', PayloadDetail (getPayload h (app s))),
                state_change Submitting] @ post) (world s)) = None"
  obtains s5 where "handleSubmit h s = fetchPlan h (getPayload h (app s)) s5"
    and "planRequest (app s5) (getPayload h (app s)) = planRequest (app s) (getPayload h (app s))"
    and "bundlesRequest (app s5) (getPayload h (app s)) =
           bundlesRequest (app s) (getPayload h (app s))"
    and "fst (deliver (app s5) post (world s5)) = None"
    and "snd (deliver (app s5) post (world s5)) =
           snd (deliver (app s)
              ([state_change Validating,
                (''submit'', PayloadDetail (getPayload h (app s))),
                state_change Submitting] @ post) (world s))"
    and "calls s5 = calls s"
    and "planSection (app s5) = planSection (app s)"
    and "bundlesSection (app s5) = bundlesSection (app s)"
proof -
  note d = deliver_append_returns [OF r]
  from handleSubmit_valid [OF ns v d(1)] obtain s5 where
    hs: "handleSubmit h s = fetchPlan h (getPayload h (app s)) s5"
    and f5: "fixed (app s5) = fixed (app s)"
    and c5: "calls s5 = calls s"
    and w5: "world s5 = snd (deliver (app s)
           [state_change Validating,
            (''submit'', PayloadDetail (getPayload h (app s))),
            state_change Submitting] (world s))"
    and p5: "planSection (app s5) = planSection (app s)"
    and b5: "bundlesSection (app s5) = bundlesSection (app s)"
    by blast
  show thesis
  proof (rule that)
    show "handleSubmit h s = fetchPlan h (getPayload h (app s)) s5"
      by (rule hs)
    show "planRequest (app s5) (getPayload h (app s)) = planRequest (app s) (getPayload h (app s))"
      by (rule planRequest_fixed [OF f5])
    show "bundlesRequest (app s5) (getPayload h (app s)) =
           bundlesRequest (app s) (getPayload h (app s))"
      by (rule bundlesRequest_fixed [OF f5])
    show "fst (deliver (app s5) post (world s5)) = None"
      unfolding w5 deliver_fixed [OF f5] by (rule d(2))
    show "snd (deliver (app s5) post (world s5)) =
           snd (deliver (app s)
              ([state_change Validating,
                (''submit'', PayloadDetail (getPayload h (app s))),
                state_change Submitting] @ post) (world s))"
      unfolding w5 deliver_fixed [OF f5] by (rule d(3) [symmetric])
    show "calls s5 = calls s" by (rule c5)
    show "planSection (app s5) = planSection (app s)" by (rule p5)
    show "bundlesSection (app s5) = bundlesSection (app s)" by (rule b5)
  qed
qed

text \<open>The four paths of an attempt in which every call of the sink returns.\<close>

lemma handleSubmit_plan_failed:
  assumes ns: "state (app s) \<noteq> Submitting" and v: "form_valid h (app s)"
    and pa: "plan_answer h (app s) = Inl err"
    and r: "fst (deliver (app s)
              [state_change Validating,
               (''submit'', PayloadDetail (getPayload h (app s))),
               state_change Submitting,
               (''error'', ResolvedDetail (resolveError err)),
               state_change Error] (world s)) = None"
  shows "fst (handleSubmit h s) = None"
    and "state (app (snd (handleSubmit h s))) = Error"
    and "world (snd (handleSubmit h s)) =
           snd (deliver (app s)
             [state_change Validating,
              (''submit'', PayloadDetail (getPayload h (app s))),
              state_change Submitting,
              (''error'', ResolvedDetail (resolveError err)),
              state_change Error] (world s))"
    and "calls (snd (handleSubmit h s)) =
           calls s @ [planRequest (app s) (getPayload h (app s))]"
    and "planSection (app (snd (handleSubmit h s))) = planSection (app s)"
    and "bundlesSection (app (snd (handleSubmit h s))) = bundlesSection (app s)"
proof -
  let ?p = "getPayload h (app s)"
  let ?post = "[(''error'', ResolvedDetail (resolveError err)), state_change Error]"
  from r have "fst (deliver (app s)
              ([state_change Validating, (''submit'', PayloadDetail ?p),
                state_change Submitting] @ ?post) (world s)) = None"
    by (simp only: append.simps)
  from handleSubmit_then [OF ns v this] obtain s5 where
    hs: "handleSubmit h s = fetchPlan h ?p s5"
    and pr: "planRequest (app s5) ?p = planRequest (app s) ?p"
    and r5: "fst (deliver (app s5) ?post (world s5)) = None"
    and w5: "snd (deliver (app s5) ?post (world s5)) =
           snd (deliver (app s)
              ([state_change Validating, (''submit'', PayloadDetail ?p),
                state_change Submitting] @ ?post) (world s))"
    and c5: "calls s5 = calls s"
    and p5: "planSection (app s5) = planSection (app s)"
    and b5: "bundlesSection (app s5) = bundlesSection (app s)"
    by blast
  have a: "jsonFetch h (parse_plan h) (planRequest (app s5) ?p) = Inl err"
    using pa by (simp only: plan_answer_def pr)
  note fp = fetchPlan_plan_failed [OF a r5]
  show "fst (handleSubmit h s) = None"
    by (simp only: hs fp(1))
  show "state (app (snd (handleSubmit h s))) = Error"
    by (simp only: hs fp(2))
  show "world (snd (handleSubmit h s)) =
           snd (deliver (app s)
             [state_change Validating, (''submit'', PayloadDetail ?p), state_change Submitting,
              (''error'', ResolvedDetail (resolveError err)), state_change Error] (world s))"
    using w5 by (simp only: hs fp(3) append.simps)
  show "calls (snd (handleSubmit h s)) = calls s @ [planRequest (app s) ?p]"
    by (simp only: hs fp(4) c5 pr)
  show "planSection (app (snd (handleSubmit h s))) = planSection (app s)"
    by (simp only: hs fp(5) p5)
  show "bundlesSection (app (snd (handleSubmit h s))) = bundlesSection (app s)"
    by (simp only: hs fp(6) b5)
qed

lemma handleSubmit_bundles_failed:
  assumes ns: "state (app s) \<noteq> Submitting" and v: "form_valid h (app s)"
    and pa: "plan_answer h (app s) = Inr planData"
    and ba: "bundles_answer h (app s) = Inl bundlesErr"
    and r: "fst (deliver (app s)
              [state_change Validating,
               (''submit'', PayloadDetail (getPayload h (app s))),
               state_change Submitting,
               (''plan_success'', PlanDetail planData),
               (''bundles_error'', RawErrorDetail bundlesErr),
               state_change Error] (world s)) = None"
  shows "fst (handleSubmit h s) = None"
    and "state (app (snd (handleSubmit h s))) = Error"
    and "world (snd (handleSubmit h s)) =
           snd (deliver (app s)
             [state_change Validating,
              (''submit'', PayloadDetail (getPayload h (app s))),
              state_change Submitting,
              (''plan_success'', PlanDetail planData),
              (''bundles_error'', RawErrorDetail bundlesErr),
              state_change Error] (world s))"
    and "calls (snd (handleSubmit h s)) =
           calls s @ [planRequest (app s) (getPayload h (app s)),
                      bundlesRequest (app s) (getPayload h (app s))]"
    and "planSection (app (snd (handleSubmit h s))) = PlanView (plan_steps planData)"
    and "bundlesSection (app (snd (handleSubmit h s))) = NoBundlesMessage"
proof -
  let ?p = "getPayload h (app s)"
  let ?post = "[(''plan_success'', PlanDetail planData),
                (''bundles_error'', RawErrorDetail bundlesErr), state_change Error]"
  from r have "fst (deliver (app s)
              ([state_change Validating, (''submit'', PayloadDetail ?p),
                state_change Submitting] @ ?post) (world s)) = None"
    by (simp only: append.simps)
  from handleSubmit_then [OF ns v this] obtain s5 where
    hs: "handleSubmit h s = fetchPlan h ?p s5"
    and pr: "planRequest (app s5) ?p = planRequest (app s) ?p"
    and br: "bundlesRequest (app s5) ?p = bundlesRequest (app s) ?p"
    and r5: "fst (deliver (app s5) ?post (world s5)) = None"
    and w5: "snd (deliver (app s5) ?post (world s5)) =
           snd (deliver (app s)
              ([state_change Validating, (''submit'', PayloadDetail ?p),
                state_change Submitting] @ ?post) (world s))"
    and c5: "calls s5 = calls s"
    by blast
  have a: "jsonFetch h (parse_plan h) (planRequest (app s5) ?p) = Inr planData"
    using pa by (simp only: plan_answer_def pr)
  have b: "jsonFetch h (parse_bundles h) (bundlesRequest (app s5) ?p) = Inl bundlesErr"
    using ba by (simp only: bundles_answer_def br)
  note fp = fetchPlan_bundles_failed [OF a b r5]
  show "fst (handleSubmit h s) = None"
    by (simp only: hs fp(1))
  show "state (app (snd (handleSubmit h s))) = Error"
    by (simp only: hs fp(2))
  show "world (snd (handleSubmit h s)) =
           snd (deliver (app s)
             [state_change Validating, (''submit'', PayloadDetail ?p), state_change Submitting,
              (''plan_success'', PlanDetail planData),
              (''bundles_error'', RawErrorDetail bundlesErr), state_change Error] (world s))"
    using w5 by (simp only: hs fp(3) append.simps)
  show "calls (snd (handleSubmit h s)) = calls s @ [planRequest (app s) ?p, bundlesRequest (app s) ?p]"
    by (simp only: hs fp(4) c5 pr br)
  show "planSection (app (snd (handleSubmit h s))) = PlanView (plan_steps planData)"
    by (simp only: hs fp(5))
  show "bundlesSection (app (snd (handleSubmit h s))) = NoBundlesMessage"
    by (simp only: hs fp(6))
qed

lemma handleSubmit_success:
  assumes ns: "state (app s) \<noteq> Submitting" and v: "form_valid h (app s)"
    and pa: "plan_answer h (app s) = Inr planData"
    and ba: "bundles_answer h (app s) = Inr bundlesData"
    and r: "fst (deliver (app s)
              [state_change Validating,
               (''submit'', PayloadDetail (getPayload h (app s))),
               state_change Submitting,
               (''plan_success'', PlanDetail planData),
               (''bundles_success'', BundlesDetail bundlesData),
               (''success'', PlanBundlesDetail planData bundlesData),
               state_change Success] (world s)) = None"
  shows "fst (handleSubmit h s) = None"
    and "state (app (snd (handleSubmit h s))) = Success"
    and "world (snd (handleSubmit h s)) =
           snd (deliver (app s)
             [state_change Validating,
              (''submit'', PayloadDetail (getPayload h (app s))),
              state_change Submitting,
              (''plan_success'', PlanDetail planData),
              (''bundles_success'', BundlesDetail bundlesData),
              (''success'', PlanBundlesDetail planData bundlesData),
              state_change Success] (world s))"
    and "calls (snd (handleSubmit h s)) =
           calls s @ [planRequest (app s) (getPayload h (app s)),
                      bundlesRequest (app s) (getPayload h (app s))]"
    and "planSection (app (snd (handleSubmit h s))) = PlanView (plan_steps planData)"
proof -
  let ?p = "getPayload h (app s)"
  let ?post = "[(''plan_success'', PlanDetail planData),
                (''bundles_success'', BundlesDetail bundlesData),
                (''success'', PlanBundlesDetail planData bundlesData),
                state_change Success]"
  from r have "fst (deliver (app s)
              ([state_change Validating, (''submit'', PayloadDetail ?p),
                state_change Submitting] @ ?post) (world s)) = None"
    by (simp only: append.simps)
  from handleSubmit_then [OF ns v this] obtain s5 where
    hs: "handleSubmit h s = fetchPlan h ?p s5"
    and pr: "planRequest (app s5) ?p = planRequest (app s) ?p"
    and br: "bundlesRequest (app s5) ?p = bundlesRequest (app s) ?p"
    and r5: "fst (deliver (app s5) ?post (world s5)) = None"
    and w5: "snd (deliver (app s5) ?post (world s5)) =
           snd (deliver (app s)
              ([state_change Validating, (''submit'', PayloadDetail ?p),
                state_change Submitting] @ ?post) (world s))"
    and c5: "calls s5 = calls s"
    by blast
  have a: "jsonFetch h (parse_plan h) (planRequest (app s5) ?p) = Inr planData"
    using pa by (simp only: plan_answer_def pr)
  have b: "jsonFetch h (parse_bundles h) (bundlesRequest (app s5) ?p) = Inr bundlesData"
    using ba by (simp only: bundles_answer_def br)
  note fp = fetchPlan_success [OF a b r5]
  show "fst (handleSubmit h s) = None"
    by (simp only: hs fp(1))
  show "state (app (snd (handleSubmit h s))) = Success"
    by (simp only: hs fp(2))
  show "world (snd (handleSubmit h s)) =
           snd (deliver (app s)
             [state_change Validating, (''submit'', PayloadDetail ?p), state_change Submitting,
              (''plan_success'', PlanDetail planData),
              (''bundles_success'', BundlesDetail bundlesData),
              (''success'', PlanBundlesDetail planData bundlesData),
              state_change Success] (world s))"
    using w5 by (simp only: hs fp(3) append.simps)
  show "calls (snd (handleSubmit h s)) = calls s @ [planRequest (app s) ?p, bundlesRequest (app s) ?p]"
    by (simp only: hs fp(4) c5 pr br)
  show "planSection (app (snd (handleSubmit h s))) = PlanView (plan_steps planData)"
    by (simp only: hs fp(5))
qed

text \<open>The four paths together.\<close>

lemma handleSubmit_returns:
  assumes ns: "state (app s) \<noteq> Submitting"
    and r: "fst (deliver (app s) (attempt_events h (app s)) (world s)) = None"
  shows "fst (handleSubmit h s) = None"
    and "world (snd (handleSubmit h s)) =
           snd (deliver (app s) (attempt_events h (app s)) (world s))"
    and "state (app (snd (handleSubmit h s))) =
           (if form_valid h (app s) then
              (case plan_answer h (app s) of
                 Inl err \<Rightarrow> Error
               | Inr planData \<Rightarrow>
                   (case bundles_answer h (app s) of Inl bundlesErr \<Rightarrow> Error | Inr b \<Rightarrow> Success))
            else Error)"
proof -
  have "fst (handleSubmit h s) = None \<and>
        world (snd (handleSubmit h s)) =
           snd (deliver (app s) (attempt_events h (app s)) (world s)) \<and>
        state (app (snd (handleSubmit h s))) =
           (if form_valid h (app s) then
              (case plan_answer h (app s) of
                 Inl err \<Rightarrow> Error
               | Inr planData \<Rightarrow>
                   (case bundles_answer h (app s) of Inl bundlesErr \<Rightarrow> Error | Inr b \<Rightarrow> Success))
            else Error)"
  proof (cases "form_valid h (app s)")
    case False
    have ev: "attempt_events h (app s) =
        [state_change Validating,
         (''validation_failed'', FieldErrorsDetail (form_errors h (app s)))] @ [state_change Error]"
      using False by (simp add: attempt_events_def)
    note i = handleSubmit_invalid [OF ns False]
    have "fst (handleSubmit h s) = fst (deliver (app s) (attempt_events h (app s)) (world s))"
      and w: "world (snd (handleSubmit h s)) =
                snd (deliver (app s) (attempt_events h (app s)) (world s))"
      using i(2) by (simp_all only: ev append.simps prod_eq_iff fst_conv snd_conv)
    moreover have "state (app (snd (handleSubmit h s))) = Error"
      using deliver_append_returns(1) [OF r [unfolded ev]] by (rule i(3))
    ultimately show ?thesis
      using False r by simp
  next
    case True
    show ?thesis
    proof (cases "plan_answer h (app s)")
      case (Inl err)
      have ev: "attempt_events h (app s) =
        [state_change Validating, (''submit'', PayloadDetail (getPayload h (app s))),
         state_change Submitting, (''error'', ResolvedDetail (resolveError err)),
         state_change Error]"
        using True Inl by (simp add: attempt_events_def)
      note p = handleSubmit_plan_failed [OF ns True Inl r [unfolded ev]]
      show ?thesis
        using True Inl p(1,2,3) by (simp only: ev if_True sum.case simp_thms)
    next
      case (Inr planData)
      note pa = this
      show ?thesis
      proof (cases "bundles_answer h (app s)")
        case (Inl bundlesErr)
        have ev: "attempt_events h (app s) =
          [state_change Validating, (''submit'', PayloadDetail (getPayload h (app s))),
           state_change Submitting, (''plan_success'', PlanDetail planData),
           (''bundles_error'', RawErrorDetail bundlesErr), state_change Error]"
          using True pa Inl by (simp add: attempt_events_def)
        note p = handleSubmit_bundles_failed [OF ns True pa Inl r [unfolded ev]]
        show ?thesis
          using True pa Inl p(1,2,3) by (simp only: ev if_True sum.case simp_thms)
      next
        case (Inr bundlesData)
        have ev: "attempt_events h (app s) =
          [state_change Validating, (''submit'', PayloadDetail (getPayload h (app s))),
           state_change Submitting, (''plan_success'', PlanDetail planData),
           (''bundles_success'', BundlesDetail bundlesData),
           (''success'', PlanBundlesDetail planData bundlesData), state_change Success]"
          using True pa Inr by (simp add: attempt_events_def)
        note p = handleSubmit_success [OF ns True pa Inr r [unfolded ev]]
        show ?thesis
          using True pa Inr p(1,2,3) by (simp only: ev if_True sum.case simp_thms)
      qed
    qed
  qed
  then show "fst (handleSubmit h s) = None"
    and "world (snd (handleSubmit h s)) =
           snd (deliver (app s) (attempt_events h (app s)) (world s))"
    and "state (app (snd (handleSubmit h s))) =
           (if form_valid h (app s) then
              (case plan_answer h (app s) of
                 Inl err \<Rightarrow> Error
               | Inr planData \<Rightarrow>
                   (case bundles_answer h (app s) of Inl bundlesErr \<Rightarrow> Error | Inr b \<Rightarrow> Success))
            else Error)"
    by blast+
qed


section \<open>What holds whatever the sink does\<close>



lemma try_finally_keeps:
  assumes "\<And>s. P (snd (f s)) = P s" and "\<And>s. P (snd (g s)) = P s"
  shows "P (snd (try_finally f g s)) = P s"
proof (cases "f s")
  case (Pair thrown s1)
  then have "P s1 = P s"
    using assms(1) [of s] by simp
  then show ?thesis
    using Pair assms(2) [of s1]
    by (cases thrown; cases "g s1"; cases "fst (g s1)") (simp_all add: try_finally_def)
qed


lemma setState_app: "app (snd (setState x s)) = (app s) \<lparr> state := x \<rparr>"
  by (simp add: setState_def emit_def case_prod_beta)








text \<open>The \<^verbatim>\<open>finally\<close> block never leaves the controller in \<open>Submitting\<close>.\<close>

lemma finally_block_leaves_Submitting:
  "state (app (snd (finally_block s))) \<noteq> Submitting"
  by (simp add: finally_block_def ui_defs setState_app Let_def)

lemma fetchPlan_leaves_Submitting:
  "state (app (snd (fetchPlan h p s))) \<noteq> Submitting"
proof -
  let ?body = "try_catch (plan_try h p) plan_catch"
  show ?thesis
    using finally_block_leaves_Submitting [of "snd (?body s)"]
    by (cases "?body s"; cases "fst (?body s)";
        cases "finally_block (snd (?body s))"; cases "fst (finally_block (snd (?body s)))")
       (simp_all add: fetchPlan_def try_finally_def)
qed

text \<open>
  So an attempt on a valid form that gets as far as the \<^verbatim>\<open>try\<close> block, its first three
  calls of the sink having returned, ends in a state other than \<open>Submitting\<close>, and with
  the plan on the page if the plan request succeeded, whatever the sink does afterwards.
\<close>

lemma handleSubmit_leaves_Submitting:
  assumes "state (app s) \<noteq> Submitting" and "form_valid h (app s)"
    and "fst (deliver (app s)
              [state_change Validating,
               (''submit'', PayloadDetail (getPayload h (app s))),
               state_change Submitting] (world s)) = None"
  shows "state (app (snd (handleSubmit h s))) \<noteq> Submitting"
proof -
  from handleSubmit_valid [OF assms] obtain s5 where
    "handleSubmit h s = fetchPlan h (getPayload h (app s)) s5"
    by blast
  then show ?thesis
    by (simp only: fetchPlan_leaves_Submitting not_False_eq_True)
qed



section \<open>The scenarios, evaluated\<close>

lemma deliver_record_event:
  "onEvent a = sink_of record_event \<Longrightarrow> deliver a evs w = (None, w @ evs)"
  by (induction evs arbitrary: w) (auto simp add: sink_of_def record_event_def)

lemmas recording = sink_of_def record_event_def

lemmas scenario_defs =
  host_A_def host_D_def host_E_def host_C_def host_N_def sys_A_def sys_B_def scenario_host_def
  form_sys_def form_sys_with_def new_PlannerApp_def input_with_def scenario_Number_def

lemma trim_scenario [simp]:
  "trim ''12'' = ''12''" "trim ''teething pain'' = ''teething pain''" "trim [] = []"
  by (simp_all add: trim_def is_ws_def)

lemma sys_A_fresh:
  "state (app sys_A) \<noteq> Submitting" "onEvent (app sys_A) = sink_of record_event"
  "world sys_A = []" "calls sys_A = []"
  by (simp_all add: scenario_defs)

lemma sys_B_fresh:
  "state (app sys_B) \<noteq> Submitting" "onEvent (app sys_B) = sink_of record_event"
  "world sys_B = []" "calls sys_B = []"
  by (simp_all add: scenario_defs)

lemma sys_A_valid:
  "form_valid host_A (app sys_A)" "form_valid host_D (app sys_A)" "form_valid host_E (app sys_A)"
  "form_valid host_C (app sys_A)" "form_valid host_N (app sys_A)"
  by (simp_all add: scenario_defs form_valid_def validateFields_def getTrimmedValue_def
      MIN_AGE_MONTHS_def MAX_AGE_MONTHS_def MIN_CONCERN_LEN_def MAX_CONCERN_LEN_def
      js_greater_def Let_def)

lemma sys_B_invalid:
  "\<not> form_valid host_A (app sys_B)"
  "form_errors host_A (app sys_B) = [(''age'', ''Age is required.'')]"
  by (simp_all add: scenario_defs form_valid_def form_errors_def validateFields_def getTrimmedValue_def
      MIN_AGE_MONTHS_def MAX_AGE_MONTHS_def MIN_CONCERN_LEN_def MAX_CONCERN_LEN_def
      js_greater_def Let_def)

lemma sys_A_payload:
  "getPayload host_A (app sys_A) = payload_A" "getPayload host_D (app sys_A) = payload_A"
  "getPayload host_E (app sys_A) = payload_A" "getPayload host_C (app sys_A) = payload_A"
  "getPayload host_N (app sys_A) = payload_A"
  by (simp_all add: scenario_defs getPayload_def getTrimmedValue_def payload_A_def)

lemma show_nat_500: "show_nat 500 = ''500''"
  by code_simp

lemma sys_A_answers:
  "plan_answer host_A (app sys_A) = Inr (Some planA)"
  "bundles_answer host_A (app sys_A) = Inr (Some bundlesA)"
  "plan_answer host_E (app sys_A) = Inr (Some planA)"
  "bundles_answer host_E (app sys_A) = Inl http_500"
  "plan_answer host_D (app sys_A) =
     Inl (ErrorObj ((new_Error ''timeout'') \<lparr> err_code := Some ''TIMEOUT'' \<rparr>))"
  "plan_answer host_C (app sys_A) = Inr (Some planC)"
  "bundles_answer host_C (app sys_A) = Inl http_500"
  "plan_answer host_N (app sys_A) = Inr None"
  "bundles_answer host_N (app sys_A) = Inl http_500"
  by (simp_all add: scenario_defs plan_answer_def bundles_answer_def jsonFetch_def
      planRequest_def bundlesRequest_def res_ok_def http_500_def jsonFetch_catch_def show_nat_500
      new_Error_def abort_error_def)

lemma sys_A_events:
  "attempt_events host_A (app sys_A) =
     [state_change Validating, (''submit'', PayloadDetail payload_A), state_change Submitting,
      (''plan_success'', PlanDetail (Some planA)),
      (''bundles_success'', BundlesDetail (Some bundlesA)),
      (''success'', PlanBundlesDetail (Some planA) (Some bundlesA)),
      state_change Success]"
  "attempt_events host_E (app sys_A) =
     [state_change Validating, (''submit'', PayloadDetail payload_A), state_change Submitting,
      (''plan_success'', PlanDetail (Some planA)), (''bundles_error'', RawErrorDetail http_500),
      state_change Error]"
  "attempt_events host_D (app sys_A) =
     [state_change Validating, (''submit'', PayloadDetail payload_A), state_change Submitting,
      (''error'', ResolvedDetail
        \<lparr> kind = TIMEOUT, message = STATUS_TIMEOUT_ERROR,
          raw = Some (ErrorObj ((new_Error ''timeout'') \<lparr> err_code := Some ''TIMEOUT'' \<rparr>)) \<rparr>),
      state_change Error]"
  "attempt_events host_A (app sys_B) =
     [state_change Validating,
      (''validation_failed'', FieldErrorsDetail [(''age'', ''Age is required.'')]),
      state_change Error]"
  by (simp_all add: attempt_events_def sys_A_valid sys_B_invalid sys_A_answers sys_A_payload
      resolveError_def new_Error_def)

text \<open>The two scenarios the corrections start from, as the recording sink sees them.\<close>

lemma scenario_A:
  "handleSubmit host_A sys_A = (None, snd (handleSubmit host_A sys_A))"
  "state (app (snd (handleSubmit host_A sys_A))) = Success"
  "world (snd (handleSubmit host_A sys_A)) =
     [state_change Validating, (''submit'', PayloadDetail payload_A), state_change Submitting,
      (''plan_success'', PlanDetail (Some planA)),
      (''bundles_success'', BundlesDetail (Some bundlesA)),
      (''success'', PlanBundlesDetail (Some planA) (Some bundlesA)),
      state_change Success]"
  using handleSubmit_returns [of sys_A host_A]
  by (simp_all add: sys_A_fresh sys_A_valid sys_A_answers sys_A_events recording
      prod_eq_iff)

lemma scenario_E:
  "state (app (snd (handleSubmit host_E sys_A))) = Error"
  "world (snd (handleSubmit host_E sys_A)) =
     [state_change Validating, (''submit'', PayloadDetail payload_A), state_change Submitting,
      (''plan_success'', PlanDetail (Some planA)), (''bundles_error'', RawErrorDetail http_500),
      state_change Error]"
  using handleSubmit_returns [of sys_A host_E]
  by (simp_all add: sys_A_fresh sys_A_valid sys_A_answers sys_A_events recording)

text \<open>
  Sinks that throw.  With a sink that throws on \<^verbatim>\<open>error\<close>, a failed plan request ends
  in the outer \<^verbatim>\<open>catch\<close>, whose call of the sink throws before \<^verbatim>\<open>setState('error')\<close>;
  the \<^verbatim>\<open>finally\<close> block finds the state still \<open>Submitting\<close> and resets it to \<open>Idle\<close>, and
  the promise of the handler rejects.  With a sink that throws on \<^verbatim>\<open>bundles_error\<close>, a
  failed bundles request reaches the outer \<^verbatim>\<open>catch\<close> too, and \<^verbatim>\<open>error\<close> follows
  \<^verbatim>\<open>bundles_error\<close>.
\<close>

lemmas eval_defs =
  handleSubmit_def validateAndShowErrors_def showErrors_def validateFields_def
  getTrimmedValue_def getPayload_def fetchPlan_defs setFieldError_def
  jsonFetch_def jsonFetch_catch_def res_ok_def resolveError_def new_Error_def
  MIN_AGE_MONTHS_def MAX_AGE_MONTHS_def MIN_CONCERN_LEN_def MAX_CONCERN_LEN_def js_greater_def
  scenario_host_def scenario_Number_def new_PlannerApp_def input_with_def form_sys_with_def
  throwing_on_def sink_failure_def abort_error_def http_500_def
  show_nat_500 plan_steps_def planA_def bundlesA_def payload_A_def

lemma sink_throwing_on_error:
  "fst (handleSubmit host_D (form_sys_with (throwing_on [''error'']) ''12'' ''teething pain'' [])) =
     Some sink_failure"
  "state (app (snd (handleSubmit host_D
       (form_sys_with (throwing_on [''error'']) ''12'' ''teething pain'' [])))) = Idle"
  "world (snd (handleSubmit host_D
       (form_sys_with (throwing_on [''error'']) ''12'' ''teething pain'' []))) =
     [state_change Validating, (''submit'', PayloadDetail payload_A), state_change Submitting,
      (''error'', ResolvedDetail
        \<lparr> kind = TIMEOUT, message = STATUS_TIMEOUT_ERROR,
          raw = Some (ErrorObj ((new_Error ''timeout'') \<lparr> err_code := Some ''TIMEOUT'' \<rparr>)) \<rparr>),
      state_change Idle]"
  by (simp_all add: eval_defs host_D_def)

lemma sink_throwing_on_bundles_error:
  "fst (handleSubmit host_E
       (form_sys_with (throwing_on [''bundles_error'']) ''12'' ''teething pain'' [])) = None"
  "state (app (snd (handleSubmit host_E
       (form_sys_with (throwing_on [''bundles_error'']) ''12'' ''teething pain'' [])))) = Error"
  "world (snd (handleSubmit host_E
       (form_sys_with (throwing_on [''bundles_error'']) ''12'' ''teething pain'' []))) =
     [state_change Validating, (''submit'', PayloadDetail payload_A), state_change Submitting,
      (''plan_success'', PlanDetail (Some planA)),
      (''bundles_error'', RawErrorDetail http_500),
      (''error'', ResolvedDetail
        \<lparr> kind = UNKNOWN, message = STATUS_GENERIC_ERROR, raw = Some sink_failure \<rparr>),
      state_change Error]"
  by (simp_all add: eval_defs host_E_def)


section \<open>The submission controller\<close>

text \<open>
  C3.  While the controller is in \<open>Submitting\<close>, \<^verbatim>\<open>handleSubmit\<close> returns at once: the
  controller keeps every field, the sink is not called, no request is issued and
  nothing is thrown.
\<close>
theorem resubmit_while_submitting_is_noop:
  assumes "state (app s) = Submitting"
  shows "handleSubmit h s = (None, s)"
  using assms by (simp add: handleSubmit_def)

theorem resubmit_while_submitting_is_noop_witness:
  "state (app submitting_sys) = Submitting \<and>
   handleSubmit host_A submitting_sys = (None, submitting_sys)"
  using resubmit_while_submitting_is_noop [of submitting_sys host_A]
  by (simp add: submitting_sys_def)





text \<open>
  C4, as stated, fails: after the full success of scenario A the controller is in
  \<open>Success\<close>, not in \<open>Idle\<close>.
\<close>
theorem full_success_does_not_end_Idle:
  "state (app (snd (handleSubmit host_A sys_A))) \<noteq> Idle"
  by (simp add: scenario_A(2))

text \<open>
  C4, amended.  An attempt in which every call of the sink returns ends in \<open>Error\<close>
  (validation failure, plan failure, bundles failure) or in \<open>Success\<close> (both requests
  answered), and the handler throws nothing.  The final state is then neither \<open>Idle\<close>
  nor \<open>Submitting\<close>, the only state in which \<^verbatim>\<open>handleSubmit\<close> ignores a new attempt.
  The \<^verbatim>\<open>finally\<close> block writes \<open>Idle\<close> only when it finds the state still \<open>Submitting\<close>,
  which takes a call of the sink that throws: \<open>sink_throwing_on_error\<close> is such an
  attempt.
\<close>

theorem attempt_ends_in_Error_or_Success:
  assumes "state (app s) \<noteq> Submitting"
    and "fst (deliver (app s) (attempt_events h (app s)) (world s)) = None"
  shows "fst (handleSubmit h s) = None \<and>
         state (app (snd (handleSubmit h s))) =
           (if form_valid h (app s) then
              (case plan_answer h (app s) of
                 Inl err \<Rightarrow> Error
               | Inr planData \<Rightarrow>
                   (case bundles_answer h (app s) of Inl bundlesErr \<Rightarrow> Error | Inr b \<Rightarrow> Success))
            else Error) \<and>
         state (app (snd (handleSubmit h s))) \<noteq> Idle \<and>
         state (app (snd (handleSubmit h s))) \<noteq> Submitting"
  using handleSubmit_returns(1,3) [OF assms]
  by (simp split: sum.splits)

theorem attempt_ends_in_Error_or_Success_witness:
  "state (app sys_A) \<noteq> Submitting \<and>
   fst (deliver (app sys_A) (attempt_events host_A (app sys_A)) (world sys_A)) = None \<and>
   state (app (snd (handleSubmit host_A sys_A))) = Success \<and>
   state (app (snd (handleSubmit host_E sys_A))) = Error \<and>
   state (app (snd (handleSubmit host_D sys_A))) = Error \<and>
   state (app (snd (handleSubmit host_A sys_B))) = Error"
  using attempt_ends_in_Error_or_Success [of sys_A host_A]
    attempt_ends_in_Error_or_Success [of sys_A host_E]
    attempt_ends_in_Error_or_Success [of sys_A host_D]
    attempt_ends_in_Error_or_Success [of sys_B host_A]
  by (simp add: sys_A_fresh sys_B_fresh sys_A_valid sys_B_invalid sys_A_answers sys_A_events
      recording)

text \<open>
  C5, as stated, fails: in scenario A no \<^verbatim>\<open>state_change\<close> separates \<^verbatim>\<open>plan_success\<close>
  from \<^verbatim>\<open>bundles_success\<close>, so the events are not in the order of section 5.
\<close>
theorem full_success_breaks_stated_order:
  "\<not> spec_order (world (snd (handleSubmit host_A sys_A)))"
  by (simp add: scenario_A(3) named_def)

text \<open>
  C5, amended.  In an attempt in which every call of the sink returns, the sink is
  called, in this order and with nothing else, with \<^verbatim>\<open>state_change(Validating)\<close>; then
  either \<^verbatim>\<open>validation_failed\<close> and \<^verbatim>\<open>state_change(Error)\<close>; or \<^verbatim>\<open>submit\<close>,
  \<^verbatim>\<open>state_change(Submitting)\<close> and then either \<^verbatim>\<open>error\<close>, \<^verbatim>\<open>state_change(Error)\<close>, or
  \<^verbatim>\<open>plan_success\<close> followed at once by \<^verbatim>\<open>bundles_success\<close>, \<^verbatim>\<open>success\<close>,
  \<^verbatim>\<open>state_change(Success)\<close> or by \<^verbatim>\<open>bundles_error\<close>, \<^verbatim>\<open>state_change(Error)\<close>.  A
  \<^verbatim>\<open>state_change(Idle)\<close> closes an attempt only after a call of the sink has thrown, as
  in \<open>sink_throwing_on_error\<close>.
\<close>

theorem attempt_event_order:
  assumes "state (app s) \<noteq> Submitting"
    and "fst (deliver (app s) (attempt_events h (app s)) (world s)) = None"
  shows "(fst (handleSubmit h s), world (snd (handleSubmit h s))) =
     deliver (app s)
       (state_change Validating #
        (if \<not> form_valid h (app s)
         then [(''validation_failed'', FieldErrorsDetail (form_errors h (app s))),
               state_change Error]
         else (''submit'', PayloadDetail (getPayload h (app s))) # state_change Submitting #
              (case plan_answer h (app s) of
                 Inl err \<Rightarrow> [(''error'', ResolvedDetail (resolveError err)), state_change Error]
               | Inr planData \<Rightarrow>
                   (''plan_success'', PlanDetail planData) #
                   (case bundles_answer h (app s) of
                      Inl bundlesErr \<Rightarrow>
                        [(''bundles_error'', RawErrorDetail bundlesErr), state_change Error]
                    | Inr bundlesData \<Rightarrow>
                        [(''bundles_success'', BundlesDetail bundlesData),
                         (''success'', PlanBundlesDetail planData bundlesData),
                         state_change Success]))))
       (world s)"
  using handleSubmit_returns(1,2) [OF assms] assms(2)
  by (simp only: attempt_events_def prod_eq_iff fst_conv snd_conv simp_thms)

theorem attempt_event_order_witness:
  "state (app sys_A) \<noteq> Submitting \<and>
   fst (deliver (app sys_A) (attempt_events host_A (app sys_A)) (world sys_A)) = None \<and>
   fst (handleSubmit host_A sys_A) = None \<and>
   world (snd (handleSubmit host_A sys_A)) =
     [state_change Validating, (''submit'', PayloadDetail payload_A), state_change Submitting,
      (''plan_success'', PlanDetail (Some planA)),
      (''bundles_success'', BundlesDetail (Some bundlesA)),
      (''success'', PlanBundlesDetail (Some planA) (Some bundlesA)),
      state_change Success]"
  using attempt_event_order [of sys_A host_A]
  by (simp add: sys_A_fresh sys_A_valid sys_A_answers sys_A_payload sys_A_events recording
      prod_eq_iff)

text \<open>
  C8, as stated, fails: when the bundles request fails, \<^verbatim>\<open>bundles_error\<close> carries the
  value that was thrown, and no event of the attempt carries a resolved error or a
  field-errors mapping.
\<close>
theorem bundles_failure_emits_no_resolved_error:
  "bundles_answer host_E (app sys_A) = Inl http_500 \<and>
   length (filter carries_report (world (snd (handleSubmit host_E sys_A)))) \<noteq> 1"
  by (simp add: scenario_E(2) sys_A_answers carries_report_def)

text \<open>
  C8, amended.  In an attempt in which every call of the sink returns, each failure
  path emits exactly one failure event: \<^verbatim>\<open>validation_failed\<close> with the non-empty
  field-errors mapping, \<^verbatim>\<open>error\<close> with the resolved error of the plan request, or
  \<^verbatim>\<open>bundles_error\<close> with the value thrown by the bundles request.  When the sink throws
  inside the \<^verbatim>\<open>try\<close> block a second failure event can follow, as in
  \<open>sink_throwing_on_bundles_error\<close>.
\<close>

theorem failure_paths_emit_one_failure_event:
  assumes "state (app s) \<noteq> Submitting"
    and "fst (deliver (app s) (attempt_events h (app s)) (world s)) = None"
  shows "(fst (handleSubmit h s), world (snd (handleSubmit h s))) =
           deliver (app s) (attempt_events h (app s)) (world s) \<and>
    (\<not> form_valid h (app s) \<longrightarrow>
       form_errors h (app s) \<noteq> [] \<and>
       filter failure_event (attempt_events h (app s)) =
         [(''validation_failed'', FieldErrorsDetail (form_errors h (app s)))]) \<and>
    (\<forall>err. form_valid h (app s) \<and> plan_answer h (app s) = Inl err \<longrightarrow>
       filter failure_event (attempt_events h (app s)) =
         [(''error'', ResolvedDetail (resolveError err))]) \<and>
    (\<forall>planData bundlesErr.
       form_valid h (app s) \<and> plan_answer h (app s) = Inr planData \<and>
       bundles_answer h (app s) = Inl bundlesErr \<longrightarrow>
       filter failure_event (attempt_events h (app s)) =
         [(''bundles_error'', RawErrorDetail bundlesErr)])"
proof -
  have "(fst (handleSubmit h s), world (snd (handleSubmit h s))) =
           deliver (app s) (attempt_events h (app s)) (world s)"
    using handleSubmit_returns(1,2) [OF assms] assms(2)
    by (simp only: prod_eq_iff fst_conv snd_conv simp_thms)
  then show ?thesis
    using form_errors_nonempty [of h "app s"]
    by (simp add: attempt_events_def failure_event_def)
qed

theorem failure_paths_emit_one_failure_event_witness:
  "state (app sys_A) \<noteq> Submitting \<and> state (app sys_B) \<noteq> Submitting \<and>
   \<not> form_valid host_A (app sys_B) \<and>
   filter failure_event (attempt_events host_A (app sys_B)) =
     [(''validation_failed'', FieldErrorsDetail [(''age'', ''Age is required.'')])] \<and>
   form_valid host_D (app sys_A) \<and>
   filter failure_event (attempt_events host_D (app sys_A)) =
     [(''error'', ResolvedDetail
        \<lparr> kind = TIMEOUT, message = STATUS_TIMEOUT_ERROR,
          raw = Some (ErrorObj ((new_Error ''timeout'') \<lparr> err_code := Some ''TIMEOUT'' \<rparr>)) \<rparr>)] \<and>
   form_valid host_E (app sys_A) \<and>
   filter failure_event (attempt_events host_E (app sys_A)) =
     [(''bundles_error'', RawErrorDetail http_500)] \<and>
   (fst (handleSubmit host_E sys_A), world (snd (handleSubmit host_E sys_A))) =
     (None, attempt_events host_E (app sys_A))"
  using failure_paths_emit_one_failure_event [of sys_B host_A]
    failure_paths_emit_one_failure_event [of sys_A host_D]
    failure_paths_emit_one_failure_event [of sys_A host_E]
  by (simp add: sys_A_fresh sys_B_fresh sys_A_valid sys_B_invalid sys_A_answers sys_A_events
      recording failure_event_def)


section \<open>Validation and the payload\<close>

lemma trim_prefix_hd:
  assumes "rev (dropWhile P (rev u)) \<noteq> []"
  shows "hd (rev (dropWhile P (rev u))) = hd u"
proof -
  have "rev u = takeWhile P (rev u) @ dropWhile P (rev u)" by simp
  then have "u = rev (dropWhile P (rev u)) @ rev (takeWhile P (rev u))"
    by (metis rev_append rev_rev_ident)
  then show ?thesis using assms by (metis hd_append2)
qed

lemma trim_idem: "trim (trim s) = trim s"
proof -
  let ?u = "dropWhile is_ws s"
  let ?t = "rev (dropWhile is_ws (rev ?u))"
  have front: "dropWhile is_ws ?t = ?t"
  proof (cases "?t = []")
    case True
    then show ?thesis by (metis dropWhile.simps(1))
  next
    case False
    then have "hd ?t = hd ?u" by (rule trim_prefix_hd)
    moreover have "?u \<noteq> []"
    proof
      assume "?u = []"
      then have "?t = []" by (simp only: rev.simps dropWhile.simps)
      with False show False ..
    qed
    then have "\<not> is_ws (hd ?u)" by (rule hd_dropWhile)
    ultimately show ?thesis by (simp add: dropWhile_eq_self_iff)
  qed
  have "trim (trim s) = rev (dropWhile is_ws (rev (dropWhile is_ws ?t)))"
    by (simp add: trim_def)
  also have "\<dots> = rev (dropWhile is_ws (rev ?t))"
    by (simp only: front)
  also have "\<dots> = ?t"
    by simp
  finally show ?thesis by (simp add: trim_def)
qed

lemma set_prop_nonempty [simp]: "set_prop k v obj \<noteq> []"
  by (cases obj) simp_all

lemma validateFields_ok_iff:
  "ok (validateFields Number ageRaw concernRaw emailRaw) \<longleftrightarrow>
     (trim ageRaw \<noteq> [] \<and> isFinite (Number (trim ageRaw)) \<and>
      \<not> js_le (Number (trim ageRaw)) (Fin 0) \<and>
      \<not> js_less (Number (trim ageRaw)) MIN_AGE_MONTHS \<and>
      \<not> js_greater (Number (trim ageRaw)) MAX_AGE_MONTHS) \<and>
     (trim concernRaw \<noteq> [] \<and> MIN_CONCERN_LEN \<le> length (trim concernRaw) \<and>
      length (trim concernRaw) \<le> MAX_CONCERN_LEN) \<and>
     (trim emailRaw \<noteq> [] \<longrightarrow> basicEmailRegex_test (trim emailRaw))"
  by (auto simp add: validateFields_def Let_def)

lemma validateFields_trimmed:
  "validateFields Number (trim a) (trim c) (trim e) = validateFields Number a c e"
  by (simp add: validateFields_def trim_idem)

lemma finite_in_range:
  assumes "isFinite n" and "\<not> js_less n MIN_AGE_MONTHS" and "\<not> js_greater n MAX_AGE_MONTHS"
  shows "\<exists>x. n = Fin x \<and> 1 \<le> x \<and> x \<le> 600"
  using assms by (cases n) (simp_all add: MIN_AGE_MONTHS_def MAX_AGE_MONTHS_def js_greater_def)

lemma getTrimmedValue_Some:
  "map_option in_value i = Some v \<Longrightarrow> getTrimmedValue i = trim v"
  by (cases i) (simp_all add: getTrimmedValue_def)

text \<open>
  C10.  When \<^verbatim>\<open>validateFields\<close> accepts a triple, the payload that \<^verbatim>\<open>getPayload\<close> builds
  from a form holding the same three strings has a finite age between 1 and 600, the
  trimmed concern of 3 to 500 characters, and an email exactly when the trimmed email
  is not empty; the handler's own check of that form passes too.
\<close>

theorem valid_triple_gives_wellformed_payload:
  assumes "ok (validateFields (js_Number h) ageRaw concernRaw emailRaw)"
    and "map_option in_value (ageInput a) = Some ageRaw"
    and "map_option in_value (concernInput a) = Some concernRaw"
    and "map_option in_value (emailInput a) = Some emailRaw"
  shows "(\<exists>x. age_months (getPayload h a) = Fin x \<and> 1 \<le> x \<and> x \<le> 600) \<and>
         concern (getPayload h a) = trim concernRaw \<and>
         3 \<le> length (concern (getPayload h a)) \<and> length (concern (getPayload h a)) \<le> 500 \<and>
         (email (getPayload h a) \<noteq> None \<longleftrightarrow> trim emailRaw \<noteq> []) \<and>
         (trim emailRaw \<noteq> [] \<longrightarrow> email (getPayload h a) = Some (trim emailRaw)) \<and>
         form_valid h a"
proof -
  from assms(1) have age: "trim ageRaw \<noteq> []" "isFinite (js_Number h (trim ageRaw))"
    "\<not> js_less (js_Number h (trim ageRaw)) MIN_AGE_MONTHS"
    "\<not> js_greater (js_Number h (trim ageRaw)) MAX_AGE_MONTHS"
    and cn: "MIN_CONCERN_LEN \<le> length (trim concernRaw)"
    "length (trim concernRaw) \<le> MAX_CONCERN_LEN"
    by (simp_all add: validateFields_ok_iff)
  have inputs: "getTrimmedValue (ageInput a) = trim ageRaw"
    "getTrimmedValue (concernInput a) = trim concernRaw"
    "getTrimmedValue (emailInput a) = trim emailRaw"
    using assms(2-4) by (simp_all add: getTrimmedValue_Some)
  have "age_months (getPayload h a) = js_Number h (trim ageRaw)"
    using age(1) by (simp add: getPayload_def inputs Let_def)
  with finite_in_range [OF age(2-4)]
  have "\<exists>x. age_months (getPayload h a) = Fin x \<and> 1 \<le> x \<and> x \<le> 600" by simp
  moreover have "concern (getPayload h a) = trim concernRaw"
    by (simp add: getPayload_def inputs Let_def)
  moreover have "(email (getPayload h a) \<noteq> None \<longleftrightarrow> trim emailRaw \<noteq> [])"
    "trim emailRaw \<noteq> [] \<longrightarrow> email (getPayload h a) = Some (trim emailRaw)"
    by (simp_all add: getPayload_def inputs Let_def)
  moreover have "form_valid h a"
    using assms(1) by (simp add: form_valid_def inputs validateFields_trimmed)
  ultimately show ?thesis
    using cn by (simp add: MIN_CONCERN_LEN_def MAX_CONCERN_LEN_def)
qed

lemma scenario_triple_ok:
  "ok (validateFields scenario_Number ''12'' ''  teething pain '' ''a@b.c'')"
  by (simp add: validateFields_ok_iff trim_def is_ws_def scenario_Number_def
      MIN_AGE_MONTHS_def MAX_AGE_MONTHS_def MIN_CONCERN_LEN_def MAX_CONCERN_LEN_def
      js_greater_def basicEmailRegex_test_def plain_char_def)

theorem valid_triple_gives_wellformed_payload_witness:
  "ok (validateFields (js_Number host_A) ''12'' ''  teething pain '' ''a@b.c'') \<and>
   age_months (getPayload host_A (app (form_sys ''12'' ''  teething pain '' ''a@b.c''))) = Fin 12 \<and>
   concern (getPayload host_A (app (form_sys ''12'' ''  teething pain '' ''a@b.c''))) = ''teething pain'' \<and>
   email (getPayload host_A (app (form_sys ''12'' ''  teething pain '' ''a@b.c''))) = Some ''a@b.c''"
  using valid_triple_gives_wellformed_payload [of host_A "''12''" "''  teething pain ''" "''a@b.c''"
      "app (form_sys ''12'' ''  teething pain '' ''a@b.c'')"] scenario_triple_ok
  by (simp add: host_A_def scenario_host_def form_sys_def form_sys_with_def new_PlannerApp_def
      input_with_def getPayload_def getTrimmedValue_def trim_def is_ws_def scenario_Number_def)

subsection \<open>The email pattern\<close>

text \<open>
  \<open>basicEmailRegex_test\<close> accepts exactly the strings of the pattern: a non-empty run of
  plain characters, \<^verbatim>\<open>@\<close>, a non-empty run, a dot, a non-empty run.
\<close>

lemma plain_dot: "plain_char CHR ''.''" "\<not> plain_char CHR ''@''"
  by (simp_all add: plain_char_def is_ws_def)

lemma email_language_sound:
  assumes "basicEmailRegex_test s"
  shows "\<exists>A B C. s = A @ ''@'' @ B @ ''.'' @ C \<and> A \<noteq> [] \<and> B \<noteq> [] \<and> C \<noteq> [] \<and>
           list_all plain_char (A @ B @ C)"
proof -
  let ?A = "takeWhile plain_char s"
  from assms obtain rest where
    a: "?A \<noteq> []" and d: "dropWhile plain_char s = CHR ''@'' # rest"
    and pl: "list_all plain_char rest" and dot: "CHR ''.'' \<in> set (butlast (tl rest))"
    by (auto simp add: basicEmailRegex_test_def split: list.splits)
  from dot obtain X Y where xy: "butlast (tl rest) = X @ CHR ''.'' # Y"
    by (meson split_list)
  then have ne: "tl rest \<noteq> []" by auto
  then have rne: "rest \<noteq> []" by auto
  have tlr: "tl rest = X @ CHR ''.'' # Y @ [last (tl rest)]"
    using xy ne by (metis append.assoc append_Cons append_butlast_last_id)
  have r: "rest = (hd rest # X) @ ''.'' @ (Y @ [last (tl rest)])"
    using rne tlr by (metis append_Cons append_Nil list.collapse)
  have s: "s = ?A @ ''@'' @ rest"
    using d by (metis append_Cons append_Nil takeWhile_dropWhile_id)
  have plA: "list_all plain_char ?A"
    by (simp add: list_all_iff) (meson set_takeWhileD)
  have plBC: "list_all plain_char ((hd rest # X) @ (Y @ [last (tl rest)]))"
    using pl r by (metis list_all_append list.pred_inject(2))
  show ?thesis
    apply (rule exI [of _ ?A], rule exI [of _ "hd rest # X"], rule exI [of _ "Y @ [last (tl rest)]"])
    using s r a plA plBC by (metis (no_types, lifting) append_is_Nil_conv list.distinct(1) list_all_append)
qed

lemma email_language_complete:
  assumes "s = A @ ''@'' @ B @ ''.'' @ C" and "A \<noteq> []" and "B \<noteq> []" and "C \<noteq> []"
    and "list_all plain_char (A @ B @ C)"
  shows "basicEmailRegex_test s"
proof -
  have plA: "\<And>x. x \<in> set A \<Longrightarrow> plain_char x"
    using assms(5) by (simp add: list_all_iff)
  have tw: "takeWhile plain_char s = A"
    using plA by (simp add: assms(1) takeWhile_append2 plain_dot)
  have dw: "dropWhile plain_char s = CHR ''@'' # B @ ''.'' @ C"
    using plA by (simp add: assms(1) dropWhile_append2 plain_dot)
  obtain b B' where B: "B = b # B'" using assms(3) by (cases B) auto
  have "butlast (tl (B @ ''.'' @ C)) = B' @ ''.'' @ butlast C"
    using assms(4) by (simp add: B butlast_append)
  then have "CHR ''.'' \<in> set (butlast (tl (B @ ''.'' @ C)))" by simp
  moreover have "list_all plain_char (B @ ''.'' @ C)"
    using assms(5) by (simp add: plain_dot)
  ultimately show ?thesis
    using assms(2) by (simp add: basicEmailRegex_test_def tw dw)
qed

section \<open>Error resolution\<close>

text \<open>
  C7.  \<^verbatim>\<open>resolveError\<close> is a total function, so every thrown value gets exactly one
  kind.  Its cases are tried in order: a timeout flag gives \<open>TIMEOUT\<close>; otherwise a
  \<^verbatim>\<open>TypeError\<close> gives \<open>NETWORK\<close>; otherwise a numeric status gives \<open>SERVER\<close>; everything
  else, a falsy value included, gives \<open>UNKNOWN\<close>.  On what \<^verbatim>\<open>jsonFetch\<close> throws this
  means: an abort resolves to \<open>TIMEOUT\<close>, a rejected \<^verbatim>\<open>fetch\<close> with a \<^verbatim>\<open>TypeError\<close> to
  \<open>NETWORK\<close>, a non-success status to \<open>SERVER\<close>, and a non-empty body that does not
  parse to \<open>UNKNOWN\<close>.
\<close>

theorem resolveError_taxonomy:
  "kind (resolveError Falsy) = UNKNOWN \<and>
   (timeout_flagged e \<longrightarrow> kind (resolveError (ErrorObj e)) = TIMEOUT) \<and>
   (\<not> timeout_flagged e \<and> isTypeError e \<longrightarrow> kind (resolveError (ErrorObj e)) = NETWORK) \<and>
   (\<not> timeout_flagged e \<and> \<not> isTypeError e \<and> err_status e \<noteq> None \<longrightarrow>
      kind (resolveError (ErrorObj e)) = SERVER) \<and>
   (\<not> timeout_flagged e \<and> \<not> isTypeError e \<and> err_status e = None \<longrightarrow>
      kind (resolveError (ErrorObj e)) = UNKNOWN) \<and>
   (fetch h req = Rejects (ErrorObj e) \<and> err_name e = ''AbortError'' \<longrightarrow>
      (\<exists>err. jsonFetch h parse req = Inl err \<and> kind (resolveError err) = TIMEOUT)) \<and>
   (fetch h req = Rejects (ErrorObj e) \<and> err_name e \<noteq> ''AbortError'' \<and>
    \<not> timeout_flagged e \<and> isTypeError e \<longrightarrow>
      jsonFetch h parse req = Inl (ErrorObj e) \<and> kind (resolveError (ErrorObj e)) = NETWORK) \<and>
   (fetch h req = Responds st body \<and> \<not> res_ok st \<longrightarrow>
      (\<exists>err. jsonFetch h parse req = Inl err \<and> kind (resolveError err) = SERVER)) \<and>
   (fetch h req = Responds st body \<and> res_ok st \<and> body \<noteq> [] \<and> parse body = None \<longrightarrow>
      (\<exists>err. jsonFetch h parse req = Inl err \<and> kind (resolveError err) = UNKNOWN))"
  by (auto simp add: resolveError_def timeout_flagged_def jsonFetch_def jsonFetch_catch_def
      new_Error_def Let_def)

theorem resolveError_taxonomy_witness:
  "timeout_flagged ((new_Error ''timeout'') \<lparr> err_code := Some ''TIMEOUT'' \<rparr>) \<and>
   kind (resolveError (ErrorObj ((new_Error ''timeout'') \<lparr> err_code := Some ''TIMEOUT'' \<rparr>))) = TIMEOUT \<and>
   \<not> timeout_flagged ((new_Error ''Failed to fetch'') \<lparr> isTypeError := True \<rparr>) \<and>
   kind (resolveError (ErrorObj ((new_Error ''Failed to fetch'') \<lparr> isTypeError := True \<rparr>))) = NETWORK \<and>
   \<not> timeout_flagged ((new_Error ''HTTP 500'') \<lparr> err_status := Some 500 \<rparr>) \<and>
   kind (resolveError http_500) = SERVER \<and>
   kind (resolveError (ErrorObj (new_Error ''Invalid JSON response''))) = UNKNOWN \<and>
   fetch host_D (planRequest (app sys_A) payload_A) = Rejects abort_error \<and>
   (\<exists>err. jsonFetch host_D (parse_plan host_D) (planRequest (app sys_A) payload_A) = Inl err \<and>
          kind (resolveError err) = TIMEOUT)"
  using resolveError_taxonomy [where e = "(new_Error ''timeout'') \<lparr> err_code := Some ''TIMEOUT'' \<rparr>" and h = host_D
       and req = "planRequest (app sys_A) payload_A" and parse = "parse_plan host_D"
       and st = 200 and body = "''PLAN''"]
    resolveError_taxonomy [where e = "(new_Error ''Failed to fetch'') \<lparr> isTypeError := True \<rparr>" and h = host_D
       and req = "planRequest (app sys_A) payload_A" and parse = "parse_plan host_D"
       and st = 200 and body = "''PLAN''"]
    resolveError_taxonomy [where e = "(new_Error ''HTTP 500'') \<lparr> err_status := Some 500 \<rparr>" and h = host_D
       and req = "planRequest (app sys_A) payload_A" and parse = "parse_plan host_D"
       and st = 200 and body = "''PLAN''"]
    resolveError_taxonomy [where e = "new_Error ''Invalid JSON response''" and h = host_D
       and req = "planRequest (app sys_A) payload_A" and parse = "parse_plan host_D"
       and st = 200 and body = "''PLAN''"]
    resolveError_taxonomy [where e = "\<lparr> isTypeError = False, err_name = ''AbortError'', err_message = ''The operation was aborted.'', err_code = None, err_status = None \<rparr>" and h = host_D
       and req = "planRequest (app sys_A) payload_A" and parse = "parse_plan host_D"
       and st = 200 and body = "''PLAN''"]
  by (simp add: timeout_flagged_def new_Error_def http_500_def host_D_def scenario_host_def
      planRequest_def abort_error_def)


section \<open>Wrapping the sink\<close>

lemmas page_defs =
  page_sys_def wired_def wirePlannerEvents_def handlePlannerEvent_def dispatch_def
  syncFromBundles_def registry_render_def registry_item_def detail_plan_def detail_bundles_def
  after_registry_def on_observer_def new_ExperienceApp_def syncFromPlan_def record_event_def

text \<open>
  On a page whose registry has its list element, the recording sink of the planner
  receives the same events with and without the wrapper.
\<close>

lemma wrapping_with_list_element:
  "observer (world (snd (handleSubmit host_A (wired (page_sys (Some NotRendered)))))) =
   observer (world (snd (handleSubmit host_A (page_sys (Some NotRendered)))))"
  "observer (world (snd (handleSubmit host_A (page_sys (Some NotRendered))))) =
     [state_change Validating, (''submit'', PayloadDetail payload_A), state_change Submitting,
      (''plan_success'', PlanDetail (Some planA)),
      (''bundles_success'', BundlesDetail (Some bundlesA)),
      (''success'', PlanBundlesDetail (Some planA) (Some bundlesA)),
      state_change Success]"
  by (simp_all add: eval_defs page_defs host_A_def)

text \<open>
  C6 does not hold of the code.  The wrapper calls \<^verbatim>\<open>handlePlannerEvent\<close> after the
  original sink, inside the planner's \<^verbatim>\<open>try\<close> block, and does not catch what it throws.
  On a page that has the registry but not its list element, \<^verbatim>\<open>bundles_success\<close> makes
  \<^verbatim>\<open>RegistryBuilder.render\<close> throw a \<^verbatim>\<open>TypeError\<close>; the planner's inner \<^verbatim>\<open>catch\<close> takes it
  for a failure of the bundles request.  For the same submission, with both requests
  answered, the original sink receives \<^verbatim>\<open>bundles_success\<close>, \<^verbatim>\<open>success\<close>,
  \<^verbatim>\<open>state_change(Success)\<close> without the wrapper and \<^verbatim>\<open>bundles_success\<close>,
  \<^verbatim>\<open>bundles_error\<close>, \<^verbatim>\<open>state_change(Error)\<close> with it.
\<close>

theorem wrapping_changes_events_of_original_sink:
  "observer (world (snd (handleSubmit host_A (page_sys None)))) =
     [state_change Validating, (''submit'', PayloadDetail payload_A), state_change Submitting,
      (''plan_success'', PlanDetail (Some planA)),
      (''bundles_success'', BundlesDetail (Some bundlesA)),
      (''success'', PlanBundlesDetail (Some planA) (Some bundlesA)),
      state_change Success] \<and>
   observer (world (snd (handleSubmit host_A (wired (page_sys None))))) =
     [state_change Validating, (''submit'', PayloadDetail payload_A), state_change Submitting,
      (''plan_success'', PlanDetail (Some planA)),
      (''bundles_success'', BundlesDetail (Some bundlesA)),
      (''bundles_error'', RawErrorDetail null_innerHTML),
      state_change Error] \<and>
   state (app (snd (handleSubmit host_A (page_sys None)))) = Success \<and>
   state (app (snd (handleSubmit host_A (wired (page_sys None))))) = Error \<and>
   bundlesSection (app (snd (handleSubmit host_A (wired (page_sys None))))) = NoBundlesMessage"
  by (simp add: eval_defs page_defs host_A_def)

section \<open>The static-asset responder: path traversal\<close>

lemma traversal_path: "filePath demo_process traversal_request = ''/app/.env''"
  by code_simp

lemma traversal_credentials:
  "credentials demo_process traversal_request = (Some ''user'', Some ''pass'')"
  by code_simp

lemma public_root_demo: "public_root demo_process = ''/app/frontend/public''"
  by code_simp

lemma ext_env: "toLowerCase (path_extname ''/app/.env'') = []"
  by code_simp

lemma demo_fields:
  "BASIC_AUTH_USERNAME demo_process = Some ''user''"
  "BASIC_AUTH_PASSWORD demo_process = Some ''pass''"
  "fs demo_process ''/app/.env'' = Some (File ''SECRET=1'')"
  by (simp_all add: demo_process_def)

text \<open>
  C9 does not hold of the code.  \<^verbatim>\<open>path.join\<close> resolves the \<^verbatim>\<open>..\<close> segments of the URL
  before \<^verbatim>\<open>replace(/\.\./g, '')\<close> runs, so the replacement finds nothing to delete: the
  authenticated request for \<^verbatim>\<open>/../../.env\<close> is answered with status 200 and the content
  of \<^verbatim>\<open>/app/.env\<close>, a file outside \<^verbatim>\<open>/app/frontend/public\<close>.  Both responders do so.
\<close>

theorem traversal_request_is_served:
  "handler demo_process traversal_request =
     \<lparr> statusCode = 200, content_type = Some ''application/octet-stream'',
       www_authenticate = None, sent = ''SECRET=1'' \<rparr> \<and>
   handler_alt demo_process traversal_request =
     \<lparr> statusCode = 200, content_type = Some ''application/octet-stream'',
       www_authenticate = None, sent = ''SECRET=1'' \<rparr> \<and>
   filePath demo_process traversal_request = ''/app/.env'' \<and>
   \<not> inside_root demo_process (filePath demo_process traversal_request)"
  by (simp add: handler_def handler_alt_def respond_def traversal_credentials traversal_path
      ext_env inside_root_def public_root_demo demo_fields mimeTypes_def mimeTypes_alt_def)


end
